theory Spec2Isabelle
  imports Main "HOL-Library.Char_ord" "HOL-Library.List_Lexorder"
    "HOL-Library.Product_Lexorder" "HOL-Library.AList"
begin

section \<open>Data model\<close>

text \<open>
  \<^verbatim>\<open>artifactresolver.Locator\<close> is a struct of three strings. It is a comparable Go
  value and is used as a map key; two Locators are equal when all three fields are.
\<close>

record Locator =
  Group :: string
  Product :: string
  Version :: string

text \<open>
  \<^verbatim>\<open>godellauncher.Task\<close>: the verifier reads only the field \<^verbatim>\<open>Name\<close>; the
  other fields live in the extension slot of the record.
\<close>

record Task =
  Name :: string

text \<open>
  \<^verbatim>\<open>pluginapi.PluginInfo\<close> is an interface. The source calls three of its
  methods; an interface value is the record of those methods.
\<close>

record ('m, 'u) PluginInfo =
  Tasks :: "string \<Rightarrow> string list \<Rightarrow> 'm Task_scheme list"
  UsesConfig :: bool
  UpgradeConfigTask :: "string \<Rightarrow> string list \<Rightarrow> 'u option"

record ('m, 'u) pluginInfoWithAssets =
  PluginInfo :: "('m, 'u) PluginInfo"
  Assets :: "Locator list"

text \<open>
  A Go \<^verbatim>\<open>map[Locator]V\<close> is an association list whose keys are distinct. The order
  of the list stands for the order in which one run of \<^verbatim>\<open>range\<close> visits the map,
  which Go leaves unspecified: a statement about every such list is a statement about
  every iteration order. \<^verbatim>\<open>m[k] = v\<close> is \<^const>\<open>AList.update\<close>, a lookup is
  \<^const>\<open>map_of\<close>.
\<close>

type_synonym 'v LocatorMap = "(Locator \<times> 'v) list"

text \<open>
  A Go \<^verbatim>\<open>error\<close> value is the string its method \<^verbatim>\<open>Error\<close> returns. A call that
  panics (here: a method call through a nil interface) does not return; in the model its
  outcome is \<^term>\<open>Panic\<close>, which the callers pass on as they pass an error on.
\<close>

datatype error = Error string | Panic

text \<open>
  The declarations. Modelled from the spec: the types of \<^verbatim>\<open>godellauncher.PluginsParam\<close>
  are not among the sources. A declaration is a Locator with per-platform checksums and
  an optional custom resolver, plus the declarations of its assets; the parameter holds
  the declarations and the default resolvers, both in order. A resolver is a value of
  the type \<^typ>\<open>'r\<close>.
\<close>

record 'r LocatorWithResolverParam =
  ParamLocator :: Locator
  Checksums :: "(string \<times> string) list"
  Resolver :: "'r option"

record 'r SinglePluginParam =
  LocatorWithResolverParam :: "'r LocatorWithResolverParam"
  ParamAssets :: "'r LocatorWithResolverParam list"

record 'r PluginsParam =
  DefaultResolvers :: "'r list"
  Plugins :: "'r SinglePluginParam list"

text \<open>
  Helpers of other packages that the source calls and that only format or lay out
  paths: \<^verbatim>\<open>Locator.String\<close>, the \<^verbatim>\<open>%+v\<close> rendering of a Locator,
  \<^verbatim>\<open>pluginsinternal.IndentSpaces\<close>, \<^verbatim>\<open>pathsinternal.PluginPath\<close>,
  \<^verbatim>\<open>pathsinternal.PluginFileName\<close>, \<^verbatim>\<open>filepath.Join\<close> and the verb \<^verbatim>\<open>%q\<close>.
  They are parameters.
\<close>

record helpers =
  LocatorString :: "Locator \<Rightarrow> string"
  LocatorPlusV :: "Locator \<Rightarrow> string"
  IndentSpaces :: nat
  PluginPath :: "string \<Rightarrow> Locator \<Rightarrow> string"
  PluginFileName :: "Locator \<Rightarrow> string"
  Join :: "string \<Rightarrow> string \<Rightarrow> string"
  Quote :: "string \<Rightarrow> string"

section \<open>The world outside the process\<close>

text \<open>
  What a call can change outside the process: the plugins, assets and downloads
  directories (and the output written to \<^verbatim>\<open>stdout\<close>), as one value of the type
  \<^typ>\<open>'d\<close> that only the external collaborators read and write; the files a cache path
  can name; and the log of the calls that leave the process, in the order they are made.
  The cache file is taken to lie outside the directories the resolvers write to.
\<close>

datatype fileState = NotExist | ReadError string | Content string

datatype event =
    EvLock string
  | EvUnlock string
  | EvResolveAndVerify Locator
  | EvInfoFromPlugin string
  | EvResolveAssets "Locator list"
  | EvWriteFile string string

record 'd world =
  Disk :: 'd
  Files :: "string \<Rightarrow> fileState"
  Log :: "event list"

text \<open>
  The external collaborators; they are parameters. An error is \<^const>\<open>Inl\<close> of its text
  (or \<^const>\<open>Some\<close> of it where nothing else is returned).
  \<^item> \<^verbatim>\<open>pathsinternal.ResourceDirs()\<close> and \<^verbatim>\<open>osarch.Current()\<close>;
  \<^item> \<^verbatim>\<open>Lock\<close> of \<^verbatim>\<open>lockedfile.MutexAt(path)\<close>: the error, if it fails;
  \<^item> the backend that resolves one artifact and checks its checksum (steps 2a and 2b of
    the spec), which \<^verbatim>\<open>pluginsinternal.ResolveAndVerify\<close> runs;
  \<^item> \<^verbatim>\<open>pluginapi.InfoFromPlugin\<close>, which runs the plugin executable;
  \<^item> \<^verbatim>\<open>pluginsinternal.ResolveAssets\<close>;
  \<^item> the cache codec \<^verbatim>\<open>unmarshalPluginsInfoJSON\<close> and \<^verbatim>\<open>marshalPluginsInfoJSON\<close>,
    with the contract of the spec: the decoder returns a set or an error, and a set it
    returns is a map that is not nil;
  \<^item> whether \<^verbatim>\<open>writeFileUsingRename\<close> fails.
\<close>

record ('d, 'r, 'm, 'u) externals =
  ResourceDirs :: "string + (string \<times> string \<times> string)"
  osarchCurrent :: string
  MutexLock :: "string \<Rightarrow> 'd \<Rightarrow> string option"
  resolveBackend ::
    "'r LocatorWithResolverParam \<Rightarrow> string \<Rightarrow> string \<Rightarrow> 'r list \<Rightarrow> string \<Rightarrow> 'd \<Rightarrow>
     string option \<times> 'd"
  InfoFromPlugin :: "string \<Rightarrow> 'd \<Rightarrow> (string + ('m, 'u) PluginInfo) \<times> 'd"
  ResolveAssets ::
    "string \<Rightarrow> string \<Rightarrow> 'r LocatorWithResolverParam list \<Rightarrow> string \<Rightarrow> 'r list \<Rightarrow> 'd \<Rightarrow>
     (string + Locator list) \<times> 'd"
  unmarshalPluginsInfoJSON :: "string \<Rightarrow> string + ('m, 'u) pluginInfoWithAssets LocatorMap"
  marshalPluginsInfoJSON :: "('m, 'u) pluginInfoWithAssets LocatorMap \<Rightarrow> string + string"
  writeFails :: "string \<Rightarrow> string \<Rightarrow> 'd \<Rightarrow> string option"

section \<open>Sorting and formatting\<close>

definition locatorKey :: "Locator \<Rightarrow> string \<times> string \<times> string" where
  "locatorKey l = (Group l, Product l, Version l)"

text \<open>
  Modelled from the spec: \<^verbatim>\<open>pluginsinternal.SortLocators\<close> is not among the sources.
  The spec orders Locators by group, then product, then version; strings compare
  bytewise, as Go's do.
\<close>

definition SortLocators :: "Locator list \<Rightarrow> Locator list" where
  "SortLocators ls = sort_key locatorKey ls"

text \<open>\<^verbatim>\<open>sort.Strings\<close>: ascending bytewise order.\<close>

definition sortStrings :: "string list \<Rightarrow> string list" where
  "sortStrings xs = sort xs"

text \<open>\<^verbatim>\<open>strings.Join(parts, sep)\<close>.\<close>

fun stringsJoin :: "string list \<Rightarrow> string \<Rightarrow> string" where
  "stringsJoin [] sep = []"
| "stringsJoin [p] sep = p"
| "stringsJoin (p # q # ps) sep = p @ sep @ stringsJoin (q # ps) sep"

text \<open>\<^verbatim>\<open>strings.Repeat(" ", n)\<close>.\<close>

definition spaces :: "nat \<Rightarrow> string" where
  "spaces n = replicate n (CHR '' '')"

text \<open>The verb \<^verbatim>\<open>%d\<close> on a length: decimal digits, no sign.\<close>

definition digitChar :: "nat \<Rightarrow> char" where
  "digitChar d = ''0123456789'' ! (d mod 10)"

fun fmtD :: "nat \<Rightarrow> string" where
  "fmtD n = (if n < 10 then [digitChar n] else fmtD (n div 10) @ [digitChar (n mod 10)])"

declare fmtD.simps [simp del]

text \<open>The verb \<^verbatim>\<open>%v\<close> on a \<^verbatim>\<open>[]string\<close>: the elements between brackets, one space apart.\<close>

definition fmtV :: "string list \<Rightarrow> string" where
  "fmtV xs = ''['' @ stringsJoin xs '' '' @ '']''"

text \<open>\<^verbatim>\<open>errors.Wrapf(err, msg)\<close>: the text of the wrapped error is \<^verbatim>\<open>msg: err\<close>.\<close>

definition Wrapf :: "string \<Rightarrow> string \<Rightarrow> string" where
  "Wrapf err msg = msg @ '': '' @ err"

section \<open>Compatibility verifier\<close>

definition errDifferentVersion :: string where
  "errDifferentVersion = ''different version of the same plugin''"

definition errSameProductConfig :: string where
  "errSameProductConfig = ''plugins have the same product name and both use configuration (this not currently supported -- if this situation is encountered, please file an issue to flag it)''"

definition errConflictingTasks :: "string list \<Rightarrow> string" where
  "errConflictingTasks names = ''provides conflicting tasks: '' @ fmtV names"

text \<open>
  The names of the tasks a plugin declares, in declared order:
  \<^verbatim>\<open>PluginInfo.Tasks("", nil)\<close> and the field \<^verbatim>\<open>Name\<close> of each.
\<close>

definition taskNames :: "('m, 'u) PluginInfo \<Rightarrow> string list" where
  "taskNames info = map Name (Tasks info '''' [])"

text \<open>
  The statements that fill \<^verbatim>\<open>commonTasks\<close>: the names of the current plugin, sorted,
  of which those that the other plugin declares too are kept.
\<close>

definition commonTasks :: "('m, 'u) PluginInfo \<Rightarrow> ('m, 'u) PluginInfo \<Rightarrow> string list" where
  "commonTasks currInfo otherInfo =
     filter (\<lambda>currPluginTask. currPluginTask \<in> set (taskNames otherInfo))
       (sortStrings (taskNames currInfo))"

text \<open>
  The loop of \<^verbatim>\<open>verifySinglePluginCompatibility\<close> over the entries of the map, with
  the map \<^verbatim>\<open>errs\<close> as accumulator. \<^verbatim>\<open>plugins[plugin]\<close> on a key that the map does
  not hold is Go's zero value, whose \<^verbatim>\<open>PluginInfo\<close> is the nil interface: the method
  call on it panics, which is the result \<^const>\<open>None\<close>.
\<close>

fun verifySingleLoop ::
  "Locator \<Rightarrow> ('m, 'u) pluginInfoWithAssets LocatorMap \<Rightarrow>
   ('m, 'u) pluginInfoWithAssets LocatorMap \<Rightarrow> string LocatorMap \<Rightarrow> string LocatorMap option"
where
  "verifySingleLoop plugin plugins [] errs = Some errs"
| "verifySingleLoop plugin plugins ((otherPlugin, otherPluginInfo) # rest) errs =
     (if otherPlugin = plugin then verifySingleLoop plugin plugins rest errs
      else if Group otherPlugin = Group plugin \<and> Product otherPlugin = Product plugin
      then verifySingleLoop plugin plugins rest
             (AList.update otherPlugin errDifferentVersion errs)
      else
        (case map_of plugins plugin of
           None \<Rightarrow> None
         | Some currPluginInfo \<Rightarrow>
             if Product plugin = Product otherPlugin
                \<and> UsesConfig (PluginInfo currPluginInfo)
                \<and> UsesConfig (PluginInfo otherPluginInfo)
             then verifySingleLoop plugin plugins rest
                    (AList.update otherPlugin errSameProductConfig errs)
             else if length (commonTasks (PluginInfo currPluginInfo) (PluginInfo otherPluginInfo)) \<noteq> 0
             then verifySingleLoop plugin plugins rest
                    (AList.update otherPlugin
                       (errConflictingTasks
                          (commonTasks (PluginInfo currPluginInfo) (PluginInfo otherPluginInfo)))
                       errs)
             else verifySingleLoop plugin plugins rest errs))"

definition verifySinglePluginCompatibility ::
  "Locator \<Rightarrow> ('m, 'u) pluginInfoWithAssets LocatorMap \<Rightarrow> string LocatorMap option"
where
  "verifySinglePluginCompatibility plugin plugins = verifySingleLoop plugin plugins plugins []"

text \<open>
  The first loop of \<^verbatim>\<open>verifyPluginCompatibility\<close>: the conflicts of every plugin,
  kept when there are any.
\<close>

fun conflictsLoop ::
  "('m, 'u) pluginInfoWithAssets LocatorMap \<Rightarrow> Locator list \<Rightarrow>
   string LocatorMap LocatorMap \<Rightarrow> string LocatorMap LocatorMap option"
where
  "conflictsLoop plugins [] conflicts = Some conflicts"
| "conflictsLoop plugins (currPlugin # rest) conflicts =
     (case verifySinglePluginCompatibility currPlugin plugins of
        None \<Rightarrow> None
      | Some currConflicts \<Rightarrow>
          if length currConflicts = 0 then conflictsLoop plugins rest conflicts
          else conflictsLoop plugins rest (AList.update currPlugin currConflicts conflicts))"

text \<open>The map \<^verbatim>\<open>conflicts\<close> when the first loop is over: the ConflictReport of the spec.\<close>

definition conflictReport ::
  "('m, 'u) pluginInfoWithAssets LocatorMap \<Rightarrow> string LocatorMap LocatorMap option"
where
  "conflictReport plugins = conflictsLoop plugins (map fst plugins) []"

text \<open>
  The inner loop of the formatting: one line per conflicting partner, which holds the
  reason only. \<^verbatim>\<open>conflicts[k][innerK].Error()\<close> on a key the inner map does not hold
  would call \<^verbatim>\<open>Error\<close> on a nil error and panic.
\<close>

fun innerLines :: "helpers \<Rightarrow> string LocatorMap \<Rightarrow> Locator list \<Rightarrow> string option" where
  "innerLines h inner [] = Some []"
| "innerLines h inner (innerK # rest) =
     (case map_of inner innerK of
        None \<Rightarrow> None
      | Some err \<Rightarrow>
          map_option (\<lambda>more. ''\<newline>'' @ spaces (IndentSpaces h * 2) @ err @ more)
            (innerLines h inner rest))"

text \<open>
  The outer loop: one line per plugin that has conflicts, then its inner lines.
  \<^verbatim>\<open>conflicts[k]\<close> on a missing key is the nil map, over which \<^verbatim>\<open>range\<close> does nothing.
\<close>

fun outerLines :: "helpers \<Rightarrow> string LocatorMap LocatorMap \<Rightarrow> Locator list \<Rightarrow> string option" where
  "outerLines h conflicts [] = Some []"
| "outerLines h conflicts (k # rest) =
     (let inner = (case map_of conflicts k of None \<Rightarrow> [] | Some m \<Rightarrow> m) in
      case innerLines h inner (SortLocators (map fst inner)) of
        None \<Rightarrow> None
      | Some lines \<Rightarrow>
          map_option
            (\<lambda>more. ''\<newline>'' @ spaces (IndentSpaces h) @ LocatorString h k @ '':'' @ lines @ more)
            (outerLines h conflicts rest))"

definition formatConflicts :: "helpers \<Rightarrow> string LocatorMap LocatorMap \<Rightarrow> string option" where
  "formatConflicts h conflicts =
     map_option (\<lambda>lines. fmtD (length conflicts) @ '' plugins had compatibility issues:'' @ lines)
       (outerLines h conflicts (SortLocators (map fst conflicts)))"

text \<open>
  \<^verbatim>\<open>verifyPluginCompatibility\<close>: \<^const>\<open>None\<close> is the nil error, \<^term>\<open>Some (Error msg)\<close>
  the error with text \<^term>\<open>msg\<close>.
\<close>

definition verifyPluginCompatibility ::
  "helpers \<Rightarrow> ('m, 'u) pluginInfoWithAssets LocatorMap \<Rightarrow> error option"
where
  "verifyPluginCompatibility h plugins =
     (case conflictReport plugins of
        None \<Rightarrow> Some Panic
      | Some conflicts \<Rightarrow>
          if length conflicts = 0 then None
          else (case formatConflicts h conflicts of
                  None \<Rightarrow> Some Panic
                | Some errString \<Rightarrow> Some (Error errString)))"

subsection \<open>The verifier in the words of the spec\<close>

text \<open>
  The three rules of the spec for one ordered pair of distinct plugins, in their
  priority; the first that matches gives the reason.
\<close>

definition duplicateProduct :: "Locator \<Rightarrow> Locator \<Rightarrow> bool" where
  "duplicateProduct A B \<longleftrightarrow> Group A = Group B \<and> Product A = Product B"

definition configCollision ::
  "Locator \<Rightarrow> ('m, 'u) pluginInfoWithAssets \<Rightarrow> Locator \<Rightarrow> ('m, 'u) pluginInfoWithAssets \<Rightarrow> bool"
where
  "configCollision A a B b \<longleftrightarrow>
     Group A \<noteq> Group B \<and> Product A = Product B
     \<and> UsesConfig (PluginInfo a) \<and> UsesConfig (PluginInfo b)"

definition pairReason ::
  "Locator \<Rightarrow> ('m, 'u) pluginInfoWithAssets \<Rightarrow> Locator \<Rightarrow> ('m, 'u) pluginInfoWithAssets \<Rightarrow>
   string option"
where
  "pairReason A a B b =
     (if duplicateProduct A B then Some errDifferentVersion
      else if configCollision A a B b then Some errSameProductConfig
      else if set (taskNames (PluginInfo a)) \<inter> set (taskNames (PluginInfo b)) \<noteq> {}
      then Some (errConflictingTasks (commonTasks (PluginInfo a) (PluginInfo b)))
      else None)"

text \<open>The conflicts of plugin \<^term>\<open>A\<close> with the plugins of a set, and those of every plugin.\<close>

definition pairErrs ::
  "Locator \<Rightarrow> ('m, 'u) pluginInfoWithAssets \<Rightarrow> ('m, 'u) pluginInfoWithAssets LocatorMap \<Rightarrow>
   string LocatorMap"
where
  "pairErrs A a ps =
     concat (map (\<lambda>(B, b). if B = A then [] else
                    (case pairReason A a B b of None \<Rightarrow> [] | Some r \<Rightarrow> [(B, r)])) ps)"

definition conflictsOf ::
  "('m, 'u) pluginInfoWithAssets LocatorMap \<Rightarrow> ('m, 'u) pluginInfoWithAssets LocatorMap \<Rightarrow>
   string LocatorMap LocatorMap"
where
  "conflictsOf plugins ks =
     concat (map (\<lambda>(A, a). if pairErrs A a plugins = [] then []
                            else [(A, pairErrs A a plugins)]) ks)"

text \<open>
  What the ConflictReport of the source holds for the ordered pair \<^term>\<open>(A, B)\<close>: every
  reason recorded under \<^term>\<open>A\<close> for the partner \<^term>\<open>B\<close>.
\<close>

definition reportedReasons ::
  "('m, 'u) pluginInfoWithAssets LocatorMap \<Rightarrow> Locator \<Rightarrow> Locator \<Rightarrow> string list"
where
  "reportedReasons plugins A B =
     (case conflictReport plugins of
        None \<Rightarrow> []
      | Some conflicts \<Rightarrow>
          map snd (filter (\<lambda>p. fst p = B)
            (concat (map snd (filter (\<lambda>p. fst p = A) conflicts)))))"

text \<open>
  The error text in the words of the spec: a header with the number of offending
  plugins; then, for each offending plugin in sort order, a line with its Locator; then,
  for each of its partners in sort order, one line, indented two levels, per reason
  reported for the pair. A plugin offends when a reason is reported for it with some
  partner.
\<close>

definition offenders :: "('m, 'u) pluginInfoWithAssets LocatorMap \<Rightarrow> Locator list" where
  "offenders plugins =
     filter (\<lambda>A. \<exists>B \<in> set (map fst plugins). reportedReasons plugins A B \<noteq> [])
       (SortLocators (map fst plugins))"

definition pairLines ::
  "helpers \<Rightarrow> ('m, 'u) pluginInfoWithAssets LocatorMap \<Rightarrow> Locator \<Rightarrow> Locator \<Rightarrow> string"
where
  "pairLines h plugins A B =
     concat (map (\<lambda>reason. ''\<newline>'' @ spaces (IndentSpaces h * 2) @ reason)
               (reportedReasons plugins A B))"

definition partnerLines ::
  "helpers \<Rightarrow> ('m, 'u) pluginInfoWithAssets LocatorMap \<Rightarrow> Locator \<Rightarrow> string"
where
  "partnerLines h plugins A =
     concat (map (pairLines h plugins A) (SortLocators (map fst plugins)))"

definition reportText :: "helpers \<Rightarrow> ('m, 'u) pluginInfoWithAssets LocatorMap \<Rightarrow> string" where
  "reportText h plugins =
     fmtD (length (offenders plugins)) @ '' plugins had compatibility issues:''
     @ concat (map (\<lambda>A. ''\<newline>'' @ spaces (IndentSpaces h) @ LocatorString h A @ '':''
                         @ partnerLines h plugins A)
                 (offenders plugins))"

section \<open>Task aggregator\<close>

text \<open>
  The second half of \<^verbatim>\<open>loadPluginsTasks\<close>: the loop over the sorted Locators, with the
  two result slices as accumulator. \<^verbatim>\<open>plugins[pluginLoc]\<close> on a missing key is the zero
  value, and the call of \<^verbatim>\<open>Tasks\<close> through its nil interface panics.
\<close>

fun tasksLoop ::
  "helpers \<Rightarrow> string \<Rightarrow> string \<Rightarrow> ('m, 'u) pluginInfoWithAssets LocatorMap \<Rightarrow> Locator list \<Rightarrow>
   'm Task_scheme list \<times> 'u list \<Rightarrow> error + ('m Task_scheme list \<times> 'u list)"
where
  "tasksLoop h pluginsDir assetsDir plugins [] (tasks, upgradeConfigTasks) =
     Inr (tasks, upgradeConfigTasks)"
| "tasksLoop h pluginsDir assetsDir plugins (pluginLoc # rest) (tasks, upgradeConfigTasks) =
     (let pluginExecPath = PluginPath h pluginsDir pluginLoc in
      case map_of plugins pluginLoc of
        None \<Rightarrow> Inl Panic
      | Some pluginInfoWithAssets \<Rightarrow>
          (let assetPaths = map (\<lambda>assetLoc. PluginPath h assetsDir assetLoc)
                              (Assets pluginInfoWithAssets);
               tasks' = tasks @ Tasks (PluginInfo pluginInfoWithAssets) pluginExecPath assetPaths
           in case UpgradeConfigTask (PluginInfo pluginInfoWithAssets) pluginExecPath assetPaths of
                None \<Rightarrow> tasksLoop h pluginsDir assetsDir plugins rest (tasks', upgradeConfigTasks)
              | Some upgradeConfigTask \<Rightarrow>
                  tasksLoop h pluginsDir assetsDir plugins rest
                    (tasks', upgradeConfigTasks @ [upgradeConfigTask])))"

definition aggregateTasks ::
  "helpers \<Rightarrow> string \<Rightarrow> string \<Rightarrow> ('m, 'u) pluginInfoWithAssets LocatorMap \<Rightarrow>
   error + ('m Task_scheme list \<times> 'u list)"
where
  "aggregateTasks h pluginsDir assetsDir plugins =
     tasksLoop h pluginsDir assetsDir plugins (SortLocators (map fst plugins)) ([], [])"

subsection \<open>The aggregator in the words of the spec\<close>

text \<open>
  What one plugin contributes: its tasks, materialized with the path of its executable
  and the paths of its assets, in the order the plugin declares them; and its
  upgrade-config task, when it has one.
\<close>

definition tasksOf ::
  "helpers \<Rightarrow> string \<Rightarrow> string \<Rightarrow> ('m, 'u) pluginInfoWithAssets LocatorMap \<Rightarrow> Locator \<Rightarrow>
   'm Task_scheme list"
where
  "tasksOf h pluginsDir assetsDir plugins l =
     (case map_of plugins l of
        None \<Rightarrow> []
      | Some p \<Rightarrow>
          Tasks (PluginInfo p) (PluginPath h pluginsDir l)
            (map (PluginPath h assetsDir) (Assets p)))"

definition upgradeTaskOf ::
  "helpers \<Rightarrow> string \<Rightarrow> string \<Rightarrow> ('m, 'u) pluginInfoWithAssets LocatorMap \<Rightarrow> Locator \<Rightarrow>
   'u list"
where
  "upgradeTaskOf h pluginsDir assetsDir plugins l =
     (case map_of plugins l of
        None \<Rightarrow> []
      | Some p \<Rightarrow>
          (case UpgradeConfigTask (PluginInfo p) (PluginPath h pluginsDir l)
                  (map (PluginPath h assetsDir) (Assets p)) of
             None \<Rightarrow> []
           | Some u \<Rightarrow> [u]))"

section \<open>Resolution coordinator\<close>

text \<open>A call of an external collaborator changes the disk and is entered in the log.\<close>

definition callBackend ::
  "('d, 'r, 'm, 'u) externals \<Rightarrow> 'r LocatorWithResolverParam \<Rightarrow> string \<Rightarrow> string \<Rightarrow> 'r list \<Rightarrow>
   string \<Rightarrow> 'd world \<Rightarrow> string option \<times> 'd world"
where
  "callBackend x param pluginsDir downloadsDir defaultResolvers osArch w =
     (case resolveBackend x param pluginsDir downloadsDir defaultResolvers osArch (Disk w) of
        (res, d) \<Rightarrow>
          (res, w\<lparr>Disk := d, Log := Log w @ [EvResolveAndVerify (ParamLocator param)]\<rparr>))"

definition callInfoFromPlugin ::
  "('d, 'r, 'm, 'u) externals \<Rightarrow> string \<Rightarrow> 'd world \<Rightarrow>
   (string + ('m, 'u) PluginInfo) \<times> 'd world"
where
  "callInfoFromPlugin x pluginPath w =
     (case InfoFromPlugin x pluginPath (Disk w) of
        (res, d) \<Rightarrow> (res, w\<lparr>Disk := d, Log := Log w @ [EvInfoFromPlugin pluginPath]\<rparr>))"

definition callResolveAssets ::
  "('d, 'r, 'm, 'u) externals \<Rightarrow> string \<Rightarrow> string \<Rightarrow> 'r LocatorWithResolverParam list \<Rightarrow>
   string \<Rightarrow> 'r list \<Rightarrow> 'd world \<Rightarrow> (string + Locator list) \<times> 'd world"
where
  "callResolveAssets x assetsDir downloadsDir assets osArch defaultResolvers w =
     (case ResolveAssets x assetsDir downloadsDir assets osArch defaultResolvers (Disk w) of
        (res, d) \<Rightarrow>
          (res, w\<lparr>Disk := d, Log := Log w @ [EvResolveAssets (map ParamLocator assets)]\<rparr>))"

text \<open>
  Modelled from the spec: \<^verbatim>\<open>pluginsinternal.ResolveAndVerify\<close> is not among the sources.
  It resolves and checks the artifact of one declaration; a failure is recorded in
  \<^verbatim>\<open>pluginErrors\<close> under the Locator of the declaration. It returns that Locator and
  whether it succeeded.
\<close>

definition ResolveAndVerify ::
  "('d, 'r, 'm, 'u) externals \<Rightarrow> 'r LocatorWithResolverParam \<Rightarrow> string LocatorMap \<Rightarrow> string \<Rightarrow>
   string \<Rightarrow> 'r list \<Rightarrow> string \<Rightarrow> 'd world \<Rightarrow> Locator \<times> bool \<times> string LocatorMap \<times> 'd world"
where
  "ResolveAndVerify x param pluginErrors pluginsDir downloadsDir defaultResolvers osArch w =
     (case callBackend x param pluginsDir downloadsDir defaultResolvers osArch w of
        (Some err, w') \<Rightarrow>
          (ParamLocator param, False, AList.update (ParamLocator param) err pluginErrors, w')
      | (None, w') \<Rightarrow> (ParamLocator param, True, pluginErrors, w'))"

text \<open>
  One turn of the loop of \<^verbatim>\<open>resolvePlugins\<close>; the state is the two maps and the world.
\<close>

definition resolveStep ::
  "helpers \<Rightarrow> ('d, 'r, 'm, 'u) externals \<Rightarrow> string \<Rightarrow> string \<Rightarrow> string \<Rightarrow> string \<Rightarrow>
   'r PluginsParam \<Rightarrow> 'r SinglePluginParam \<Rightarrow>
   ('m, 'u) pluginInfoWithAssets LocatorMap \<times> string LocatorMap \<times> 'd world \<Rightarrow>
   ('m, 'u) pluginInfoWithAssets LocatorMap \<times> string LocatorMap \<times> 'd world"
where
  "resolveStep h x pluginsDir assetsDir downloadsDir osArch pluginsParam currPlugin st =
     (case st of (plugins, pluginErrors, w) \<Rightarrow>
      case ResolveAndVerify x (LocatorWithResolverParam currPlugin) pluginErrors pluginsDir
             downloadsDir (DefaultResolvers pluginsParam) osArch w of
        (currPluginLocator, ok, pluginErrors1, w1) \<Rightarrow>
          if \<not> ok then (plugins, pluginErrors1, w1)
          else
            (case callInfoFromPlugin x
                    (Join h pluginsDir (PluginFileName h currPluginLocator)) w1 of
               (Inl err, w2) \<Rightarrow>
                 (plugins,
                  AList.update currPluginLocator
                    (Wrapf err (''failed to get plugin info for plugin ''
                                @ LocatorPlusV h currPluginLocator))
                    pluginErrors1,
                  w2)
             | (Inr info, w2) \<Rightarrow>
                 (case callResolveAssets x assetsDir downloadsDir (ParamAssets currPlugin) osArch
                         (DefaultResolvers pluginsParam) w2 of
                    (Inl err, w3) \<Rightarrow>
                      (plugins,
                       AList.update currPluginLocator
                         (Wrapf err (''failed to get asset(s) for plugin ''
                                     @ LocatorPlusV h currPluginLocator))
                         pluginErrors1,
                       w3)
                  | (Inr assetInfoMap, w3) \<Rightarrow>
                      (AList.update currPluginLocator
                         \<lparr>PluginInfo = info, Assets = assetInfoMap\<rparr> plugins,
                       pluginErrors1, w3))))"

definition resolveLoop ::
  "helpers \<Rightarrow> ('d, 'r, 'm, 'u) externals \<Rightarrow> string \<Rightarrow> string \<Rightarrow> string \<Rightarrow> string \<Rightarrow>
   'r PluginsParam \<Rightarrow> 'r SinglePluginParam list \<Rightarrow>
   ('m, 'u) pluginInfoWithAssets LocatorMap \<times> string LocatorMap \<times> 'd world \<Rightarrow>
   ('m, 'u) pluginInfoWithAssets LocatorMap \<times> string LocatorMap \<times> 'd world"
where
  "resolveLoop h x pluginsDir assetsDir downloadsDir osArch pluginsParam decls st =
     foldl (\<lambda>st currPlugin.
              resolveStep h x pluginsDir assetsDir downloadsDir osArch pluginsParam currPlugin st)
       st decls"

text \<open>
  The loop that appends the text of every recorded error, in the order of the sorted
  keys. \<^verbatim>\<open>pluginErrors[k].Error()\<close> on a missing key would panic.
\<close>

fun errStrings :: "string LocatorMap \<Rightarrow> Locator list \<Rightarrow> string list option" where
  "errStrings pluginErrors [] = Some []"
| "errStrings pluginErrors (k # rest) =
     (case map_of pluginErrors k of
        None \<Rightarrow> None
      | Some err \<Rightarrow> map_option (\<lambda>more. err # more) (errStrings pluginErrors rest))"

definition summarizeErrors :: "helpers \<Rightarrow> string LocatorMap \<Rightarrow> error" where
  "summarizeErrors h pluginErrors =
     (case errStrings pluginErrors (SortLocators (map fst pluginErrors)) of
        None \<Rightarrow> Panic
      | Some errs \<Rightarrow>
          Error (stringsJoin
                   ((''failed to resolve '' @ fmtD (length pluginErrors) @ '' plugin(s):'') # errs)
                   (''\<newline>'' @ spaces (IndentSpaces h))))"

text \<open>
  \<^verbatim>\<open>resolvePlugins\<close>. The deferred \<^verbatim>\<open>unlock\<close> runs when the function returns, on
  either return.
\<close>

definition resolvePlugins ::
  "helpers \<Rightarrow> ('d, 'r, 'm, 'u) externals \<Rightarrow> string \<Rightarrow> string \<Rightarrow> string \<Rightarrow> string \<Rightarrow>
   'r PluginsParam \<Rightarrow> 'd world \<Rightarrow>
   (error + ('m, 'u) pluginInfoWithAssets LocatorMap) \<times> 'd world"
where
  "resolvePlugins h x pluginsDir assetsDir downloadsDir osArch pluginsParam w =
     (let pluginResolverLockFilePath = Join h pluginsDir ''godel-resolver.lock'' in
      case MutexLock x pluginResolverLockFilePath (Disk w) of
        Some err \<Rightarrow> (Inl (Error (Wrapf err ''failed to lock resolver mutex file'')), w)
      | None \<Rightarrow>
          (case resolveLoop h x pluginsDir assetsDir downloadsDir osArch pluginsParam
                  (Plugins pluginsParam)
                  ([], [], w\<lparr>Log := Log w @ [EvLock pluginResolverLockFilePath]\<rparr>) of
             (plugins, pluginErrors, w') \<Rightarrow>
               (if length pluginErrors = 0 then Inr plugins
                else Inl (summarizeErrors h pluginErrors),
                w'\<lparr>Log := Log w' @ [EvUnlock pluginResolverLockFilePath]\<rparr>)))"

subsection \<open>The coordinator in the words of the spec\<close>

text \<open>
  The attempt of one declaration, steps 2a to 2d of the spec: its outcome is the
  resolved plugin or the reason of the failure.
\<close>

definition attemptDeclaration ::
  "helpers \<Rightarrow> ('d, 'r, 'm, 'u) externals \<Rightarrow> string \<Rightarrow> string \<Rightarrow> string \<Rightarrow> string \<Rightarrow>
   'r PluginsParam \<Rightarrow> 'r SinglePluginParam \<Rightarrow> 'd world \<Rightarrow>
   (string + ('m, 'u) pluginInfoWithAssets) \<times> 'd world"
where
  "attemptDeclaration h x pluginsDir assetsDir downloadsDir osArch pluginsParam currPlugin w =
     (case callBackend x (LocatorWithResolverParam currPlugin) pluginsDir downloadsDir
             (DefaultResolvers pluginsParam) osArch w of
        (Some err, w1) \<Rightarrow> (Inl err, w1)
      | (None, w1) \<Rightarrow>
          (case callInfoFromPlugin x
                  (Join h pluginsDir
                     (PluginFileName h (ParamLocator (LocatorWithResolverParam currPlugin)))) w1 of
             (Inl err, w2) \<Rightarrow>
               (Inl (Wrapf err (''failed to get plugin info for plugin ''
                      @ LocatorPlusV h (ParamLocator (LocatorWithResolverParam currPlugin)))), w2)
           | (Inr info, w2) \<Rightarrow>
               (case callResolveAssets x assetsDir downloadsDir (ParamAssets currPlugin) osArch
                       (DefaultResolvers pluginsParam) w2 of
                  (Inl err, w3) \<Rightarrow>
                    (Inl (Wrapf err (''failed to get asset(s) for plugin ''
                           @ LocatorPlusV h (ParamLocator (LocatorWithResolverParam currPlugin)))),
                     w3)
                | (Inr assets, w3) \<Rightarrow> (Inr \<lparr>PluginInfo = info, Assets = assets\<rparr>, w3))))"

text \<open>
  The attempts of all declarations, in order, each in the world the one before left:
  the Locator of every declaration with its outcome.
\<close>

fun attemptAll ::
  "helpers \<Rightarrow> ('d, 'r, 'm, 'u) externals \<Rightarrow> string \<Rightarrow> string \<Rightarrow> string \<Rightarrow> string \<Rightarrow>
   'r PluginsParam \<Rightarrow> 'r SinglePluginParam list \<Rightarrow> 'd world \<Rightarrow>
   (Locator \<times> (string + ('m, 'u) pluginInfoWithAssets)) list \<times> 'd world"
where
  "attemptAll h x pluginsDir assetsDir downloadsDir osArch pluginsParam [] w = ([], w)"
| "attemptAll h x pluginsDir assetsDir downloadsDir osArch pluginsParam (d # ds) w =
     (case attemptDeclaration h x pluginsDir assetsDir downloadsDir osArch pluginsParam d w of
        (out, w1) \<Rightarrow>
          (case attemptAll h x pluginsDir assetsDir downloadsDir osArch pluginsParam ds w1 of
             (outs, w2) \<Rightarrow> ((ParamLocator (LocatorWithResolverParam d), out) # outs, w2)))"

text \<open>
  The outcomes of a call of \<^verbatim>\<open>resolvePlugins\<close> that holds the lock, the failures and
  the successes among outcomes, and the reason recorded last for a Locator.
\<close>

definition lockPath :: "helpers \<Rightarrow> string \<Rightarrow> string" where
  "lockPath h pluginsDir = Join h pluginsDir ''godel-resolver.lock''"

definition resolveOutcomes ::
  "helpers \<Rightarrow> ('d, 'r, 'm, 'u) externals \<Rightarrow> string \<Rightarrow> string \<Rightarrow> string \<Rightarrow> string \<Rightarrow>
   'r PluginsParam \<Rightarrow> 'd world \<Rightarrow> (Locator \<times> (string + ('m, 'u) pluginInfoWithAssets)) list"
where
  "resolveOutcomes h x pluginsDir assetsDir downloadsDir osArch pluginsParam w =
     fst (attemptAll h x pluginsDir assetsDir downloadsDir osArch pluginsParam
            (Plugins pluginsParam) (w\<lparr>Log := Log w @ [EvLock (lockPath h pluginsDir)]\<rparr>))"

definition failures :: "(Locator \<times> (string + 'a)) list \<Rightarrow> (Locator \<times> string) list" where
  "failures outs =
     concat (map (\<lambda>(l, out). case out of Inl err \<Rightarrow> [(l, err)] | Inr v \<Rightarrow> []) outs)"

definition successes :: "(Locator \<times> (string + 'a)) list \<Rightarrow> (Locator \<times> 'a) list" where
  "successes outs =
     concat (map (\<lambda>(l, out). case out of Inl err \<Rightarrow> [] | Inr v \<Rightarrow> [(l, v)]) outs)"

definition reasonOf :: "(Locator \<times> (string + 'a)) list \<Rightarrow> Locator \<Rightarrow> string" where
  "reasonOf outs l = (case map_of (rev (failures outs)) l of None \<Rightarrow> [] | Some err \<Rightarrow> err)"

text \<open>A map filled by assignments made one after the other.\<close>

fun recordAll :: "'v LocatorMap \<Rightarrow> (Locator \<times> 'v) list \<Rightarrow> 'v LocatorMap" where
  "recordAll al [] = al"
| "recordAll al ((k, v) # kvs) = recordAll (AList.update k v al) kvs"

text \<open>Readings of the log.\<close>

fun attempted :: "event list \<Rightarrow> Locator list" where
  "attempted [] = []"
| "attempted (EvResolveAndVerify l # es) = l # attempted es"
| "attempted (e # es) = attempted es"

fun resolutionEvent :: "event \<Rightarrow> bool" where
  "resolutionEvent (EvResolveAndVerify l) = True"
| "resolutionEvent (EvInfoFromPlugin p) = True"
| "resolutionEvent (EvResolveAssets ls) = True"
| "resolutionEvent e = False"

fun writes :: "event list \<Rightarrow> (string \<times> string) list" where
  "writes [] = []"
| "writes (EvWriteFile path bytes # es) = (path, bytes) # writes es"
| "writes (e # es) = writes es"

section \<open>Cache and coordinator\<close>

text \<open>
  The read path of the cache: the first block of \<^verbatim>\<open>loadPluginsTasks\<close>. The result
  is the variable \<^verbatim>\<open>plugins\<close> afterwards: \<^const>\<open>None\<close> when it is still nil, which
  is what the test \<^verbatim>\<open>plugins == nil\<close> of the next block reads. A set that the decoder
  returns is a map that is not nil (see the external collaborators).
\<close>

definition loadCache ::
  "helpers \<Rightarrow> ('d, 'r, 'm, 'u) externals \<Rightarrow> string \<Rightarrow> 'd world \<Rightarrow>
   error + ('m, 'u) pluginInfoWithAssets LocatorMap option"
where
  "loadCache h x cachePath w =
     (if cachePath \<noteq> '''' then
        (case Files w cachePath of
           Content pluginsConfigCacheBytes \<Rightarrow>
             (case unmarshalPluginsInfoJSON x pluginsConfigCacheBytes of
                Inl err \<Rightarrow> Inl (Error (Wrapf err ''failed to unmarshal plugin information''))
              | Inr loadedPlugins \<Rightarrow> Inr (Some loadedPlugins))
         | NotExist \<Rightarrow> Inr None
         | ReadError err \<Rightarrow>
             Inl (Error (Wrapf err (''failed to read plugin information from cache file at ''
                                    @ Quote h cachePath))))
      else Inr None)"

text \<open>
  Modelled from the spec: \<^verbatim>\<open>writeFileUsingRename\<close> is not among the sources. It
  replaces the file atomically: when it fails, the destination is as it was.
\<close>

definition writeFileUsingRename ::
  "('d, 'r, 'm, 'u) externals \<Rightarrow> string \<Rightarrow> string \<Rightarrow> 'd world \<Rightarrow> string option \<times> 'd world"
where
  "writeFileUsingRename x path bytes w =
     (case writeFails x path bytes (Disk w) of
        Some err \<Rightarrow> (Some err, w\<lparr>Log := Log w @ [EvWriteFile path bytes]\<rparr>)
      | None \<Rightarrow>
          (None, w\<lparr>Files := (Files w)(path := Content bytes),
                   Log := Log w @ [EvWriteFile path bytes]\<rparr>))"

text \<open>The block under \<^verbatim>\<open>if plugins == nil\<close>: resolve, verify, write the cache.\<close>

definition resolveVerifyAndCache ::
  "helpers \<Rightarrow> ('d, 'r, 'm, 'u) externals \<Rightarrow> string \<Rightarrow> string \<Rightarrow> string \<Rightarrow> 'r PluginsParam \<Rightarrow>
   string \<Rightarrow> 'd world \<Rightarrow> (error + ('m, 'u) pluginInfoWithAssets LocatorMap) \<times> 'd world"
where
  "resolveVerifyAndCache h x pluginsDir assetsDir downloadsDir pluginsParam cachePath w =
     (case resolvePlugins h x pluginsDir assetsDir downloadsDir (osarchCurrent x) pluginsParam w of
        (Inl err, w1) \<Rightarrow> (Inl err, w1)
      | (Inr plugins, w1) \<Rightarrow>
          (case verifyPluginCompatibility h plugins of
             Some err \<Rightarrow> (Inl err, w1)
           | None \<Rightarrow>
               if cachePath \<noteq> '''' then
                 (case marshalPluginsInfoJSON x plugins of
                    Inl err \<Rightarrow>
                      (Inl (Error (Wrapf err ''failed to marshal plugin information'')), w1)
                  | Inr pluginsJSON \<Rightarrow>
                      (case writeFileUsingRename x cachePath pluginsJSON w1 of
                         (Some err, w2) \<Rightarrow>
                           (Inl (Error (Wrapf err
                              (''failed to write plugin information to cache file at ''
                               @ Quote h cachePath))), w2)
                       | (None, w2) \<Rightarrow> (Inr plugins, w2)))
               else (Inr plugins, w1)))"

definition loadPluginsTasks ::
  "helpers \<Rightarrow> ('d, 'r, 'm, 'u) externals \<Rightarrow> 'r PluginsParam \<Rightarrow> string \<Rightarrow> 'd world \<Rightarrow>
   (error + ('m Task_scheme list \<times> 'u list)) \<times> 'd world"
where
  "loadPluginsTasks h x pluginsParam cachePath w =
     (case ResourceDirs x of
        Inl err \<Rightarrow> (Inl (Error err), w)
      | Inr (pluginsDir, assetsDir, downloadsDir) \<Rightarrow>
          (case loadCache h x cachePath w of
             Inl err \<Rightarrow> (Inl err, w)
           | Inr loaded \<Rightarrow>
               (case (case loaded of
                        Some plugins \<Rightarrow> (Inr plugins, w)
                      | None \<Rightarrow>
                          resolveVerifyAndCache h x pluginsDir assetsDir downloadsDir
                            pluginsParam cachePath w) of
                  (Inl err, w') \<Rightarrow> (Inl err, w')
                | (Inr plugins, w') \<Rightarrow> (aggregateTasks h pluginsDir assetsDir plugins, w'))))"

text \<open>The exported \<^verbatim>\<open>LoadPluginsTasks\<close> passes the empty cache path.\<close>

definition LoadPluginsTasks ::
  "helpers \<Rightarrow> ('d, 'r, 'm, 'u) externals \<Rightarrow> 'r PluginsParam \<Rightarrow> 'd world \<Rightarrow>
   (error + ('m Task_scheme list \<times> 'u list)) \<times> 'd world"
where
  "LoadPluginsTasks h x pluginsParam w = loadPluginsTasks h x pluginsParam '''' w"

section \<open>Example inputs\<close>

text \<open>
  A plugin info built from the names of its tasks: each task is bound to the paths it
  is materialized with. The upgrade task, when there is one, is a string.
\<close>

definition examplePluginInfo ::
  "string list \<Rightarrow> bool \<Rightarrow> string option \<Rightarrow> (string \<times> string list, string) PluginInfo"
where
  "examplePluginInfo names cfg upg =
     \<lparr>Tasks = (\<lambda>execPath assets. map (\<lambda>n. \<lparr>Name = n, \<dots> = (execPath, assets)\<rparr>) names),
      UsesConfig = cfg,
      UpgradeConfigTask = (\<lambda>execPath assets. map_option (\<lambda>u. u @ execPath) upg)\<rparr>"

definition exPlugin ::
  "string list \<Rightarrow> bool \<Rightarrow> (string \<times> string list, string) pluginInfoWithAssets"
where
  "exPlugin names cfg = \<lparr>PluginInfo = examplePluginInfo names cfg None, Assets = []\<rparr>"

text \<open>
  Helpers for the examples: a Locator prints as \<^verbatim>\<open>group:product:version\<close>, the indent
  is four spaces, the file of a plugin is named by product and version.
\<close>

definition exLocatorString :: "Locator \<Rightarrow> string" where
  "exLocatorString l = Group l @ '':'' @ Product l @ '':'' @ Version l"

definition exHelpers :: helpers where
  "exHelpers =
     \<lparr>LocatorString = exLocatorString,
      LocatorPlusV = exLocatorString,
      IndentSpaces = 4,
      PluginPath = (\<lambda>dir l. dir @ ''/'' @ Product l @ ''-'' @ Version l),
      PluginFileName = (\<lambda>l. Product l @ ''-'' @ Version l),
      Join = (\<lambda>dir name. dir @ ''/'' @ name),
      Quote = (\<lambda>s. [CHR 0x22] @ s @ [CHR 0x22])\<rparr>"

definition exA :: Locator where
  "exA = \<lparr>Group = ''g1'', Product = ''p1'', Version = ''1.0''\<rparr>"

definition exB :: Locator where
  "exB = \<lparr>Group = ''g1'', Product = ''p1'', Version = ''2.0''\<rparr>"

definition exC :: Locator where
  "exC = \<lparr>Group = ''g2'', Product = ''p1'', Version = ''1.0''\<rparr>"

definition exD :: Locator where
  "exD = \<lparr>Group = ''g3'', Product = ''p3'', Version = ''1.0''\<rparr>"

text \<open>
  External collaborators for the examples. The disk is the number of artifacts the
  backend was asked for. The backend fails for the Locators of a list; the info of a
  plugin declares one task, named by the path of the plugin; the codec knows one cache
  content, which decodes to two versions of one plugin.
\<close>

definition exCached :: "(string \<times> string list, string) pluginInfoWithAssets LocatorMap" where
  "exCached = [(exB, exPlugin [''test''] False), (exA, exPlugin [''build''] False)]"

definition exExternals ::
  "Locator list \<Rightarrow> string option \<Rightarrow> (nat, string, string \<times> string list, string) externals"
where
  "exExternals failing lockErr =
     \<lparr>ResourceDirs = Inr (''/plugins'', ''/assets'', ''/downloads''),
      osarchCurrent = ''linux-amd64'',
      MutexLock = (\<lambda>path d. lockErr),
      resolveBackend = (\<lambda>param pluginsDir downloadsDir defaults osArch d.
        (if ParamLocator param \<in> set failing
         then Some (''no resolver supplies '' @ exLocatorString (ParamLocator param))
         else None, Suc d)),
      InfoFromPlugin = (\<lambda>path d. (Inr (examplePluginInfo [path] False None), d)),
      ResolveAssets = (\<lambda>assetsDir downloadsDir assets osArch defaults d.
        (Inr (map ParamLocator assets), d)),
      unmarshalPluginsInfoJSON = (\<lambda>bytes.
        if bytes = ''cached'' then Inr exCached else Inl ''unexpected end of JSON input''),
      marshalPluginsInfoJSON = (\<lambda>plugins. Inr ''cached''),
      writeFails = (\<lambda>path bytes d. None)\<rparr>"

definition exDecl :: "Locator \<Rightarrow> string SinglePluginParam" where
  "exDecl l =
     \<lparr>LocatorWithResolverParam = \<lparr>ParamLocator = l, Checksums = [], Resolver = None\<rparr>,
      ParamAssets = []\<rparr>"

definition exParams :: "string PluginsParam" where
  "exParams = \<lparr>DefaultResolvers = [''default''], Plugins = [exDecl exD, exDecl exB, exDecl exA]\<rparr>"

definition exWorld :: "fileState \<Rightarrow> nat world" where
  "exWorld f = \<lparr>Disk = 0, Files = (\<lambda>path. if path = ''/cache.json'' then f else NotExist), Log = []\<rparr>"

text \<open>Two declarations whose plugins are compatible.\<close>

definition exParamsOk :: "string PluginsParam" where
  "exParamsOk = \<lparr>DefaultResolvers = [''default''], Plugins = [exDecl exD, exDecl exA]\<rparr>"

section \<open>Association lists\<close>

lemma update_fresh: "k \<notin> fst ` set al \<Longrightarrow> AList.update k v al = al @ [(k, v)]"
  by (induction al) auto

lemma filter_concat_key:
  assumes "\<And>k v p. p \<in> set (f k v) \<Longrightarrow> fst p = k"
  shows "distinct (map fst ps) \<Longrightarrow>
     filter (\<lambda>p. fst p = K) (concat (map (\<lambda>(k, v). f k v) ps))
       = (case map_of ps K of None \<Rightarrow> [] | Some v \<Rightarrow> f K v)"
proof (induction ps)
  case Nil
  then show ?case by simp
next
  case (Cons q ps)
  obtain k v where q: "q = (k, v)" by (cases q)
  have same: "filter (\<lambda>p. fst p = k) (f k v) = f k v"
    using assms by (auto intro: filter_True)
  have other: "k \<noteq> K \<Longrightarrow> filter (\<lambda>p. fst p = K) (f k v) = []"
    using assms by (auto simp: filter_empty_conv)
  from Cons.prems have d: "distinct (map fst ps)" and nk: "k \<notin> fst ` set ps"
    by (auto simp: q)
  have none: "map_of ps k = None"
    using nk by (simp add: map_of_eq_None_iff)
  show ?case
    using Cons.IH[OF d] same other none by (auto simp: q)
qed

section \<open>The verifier computes the three rules\<close>

lemma set_commonTasks:
  "set (commonTasks a b) = set (taskNames a) \<inter> set (taskNames b)"
  by (auto simp: commonTasks_def sortStrings_def)

lemma sorted_commonTasks: "sorted (commonTasks a b)"
  by (simp add: commonTasks_def sortStrings_def sorted_filter[where f="\<lambda>x. x", simplified])

lemma commonTasks_Nil: "commonTasks a b = [] \<longleftrightarrow> set (taskNames a) \<inter> set (taskNames b) = {}"
  using set_commonTasks[of a b] by (metis set_empty)

lemma commonTasks_distinct:
  assumes "distinct (taskNames a)"
  shows "commonTasks a b = sorted_list_of_set (set (taskNames a) \<inter> set (taskNames b))"
proof -
  have "distinct (commonTasks a b)"
    using assms by (simp add: commonTasks_def sortStrings_def)
  then show ?thesis
    using sorted_commonTasks[of a b] set_commonTasks[of a b]
    by (metis sorted_list_of_set.idem_if_sorted_distinct)
qed

lemma pairErrs_Cons:
  "pairErrs A a ((B, b) # ps) =
     (if B = A then [] else (case pairReason A a B b of None \<Rightarrow> [] | Some r \<Rightarrow> [(B, r)]))
     @ pairErrs A a ps"
  by (simp add: pairErrs_def)

lemma verifySingleLoop_eq:
  assumes "map_of plugins A = Some a"
  shows "distinct (map fst rest) \<Longrightarrow> fst ` set errs \<inter> fst ` set rest = {} \<Longrightarrow>
         verifySingleLoop A plugins rest errs = Some (errs @ pairErrs A a rest)"
proof (induction rest arbitrary: errs)
  case Nil
  then show ?case by (simp add: pairErrs_def)
next
  case (Cons p rest)
  obtain B b where p: "p = (B, b)" by (cases p)
  from Cons.prems have d: "distinct (map fst rest)" and nB: "B \<notin> fst ` set rest"
    and fr: "B \<notin> fst ` set errs" and dj: "fst ` set errs \<inter> fst ` set rest = {}"
    by (auto simp: p)
  have upd: "\<And>v. fst ` set (errs @ [(B, v)]) \<inter> fst ` set rest = {}"
    using dj nB by auto
  have step: "\<And>v. verifySingleLoop A plugins rest (AList.update B v errs)
                 = Some (errs @ [(B, v)] @ pairErrs A a rest)"
    using Cons.IH[OF d upd] by (simp add: update_fresh[OF fr])
  show ?case
    using Cons.IH[OF d dj] step assms
    by (auto simp: p pairErrs_Cons pairReason_def duplicateProduct_def configCollision_def
          commonTasks_Nil)
qed

lemma verifySingle_eq:
  "distinct (map fst plugins) \<Longrightarrow> map_of plugins A = Some a \<Longrightarrow>
   verifySinglePluginCompatibility A plugins = Some (pairErrs A a plugins)"
  using verifySingleLoop_eq[of plugins A a plugins "[]"]
  by (simp add: verifySinglePluginCompatibility_def)

lemma conflictsLoop_eq:
  assumes "distinct (map fst plugins)"
  shows "distinct (map fst ks) \<Longrightarrow> set ks \<subseteq> set plugins \<Longrightarrow>
         fst ` set conflicts \<inter> fst ` set ks = {} \<Longrightarrow>
         conflictsLoop plugins (map fst ks) conflicts = Some (conflicts @ conflictsOf plugins ks)"
proof (induction ks arbitrary: conflicts)
  case Nil
  then show ?case by (simp add: conflictsOf_def)
next
  case (Cons p ks)
  obtain A a where p: "p = (A, a)" by (cases p)
  from Cons.prems have d: "distinct (map fst ks)" and sub: "set ks \<subseteq> set plugins"
    and mem: "(A, a) \<in> set plugins" and nA: "A \<notin> fst ` set ks"
    and fr: "A \<notin> fst ` set conflicts" and dj: "fst ` set conflicts \<inter> fst ` set ks = {}"
    by (auto simp: p)
  have look: "map_of plugins A = Some a"
    using assms mem by simp
  have single: "verifySinglePluginCompatibility A plugins = Some (pairErrs A a plugins)"
    by (rule verifySingle_eq[OF assms look])
  have upd: "\<And>v. fst ` set (conflicts @ [(A, v)]) \<inter> fst ` set ks = {}"
    using dj nA by auto
  have step: "\<And>v. conflictsLoop plugins (map fst ks) (AList.update A v conflicts)
                 = Some (conflicts @ [(A, v)] @ conflictsOf plugins ks)"
    using Cons.IH[OF d sub upd] by (simp add: update_fresh[OF fr])
  have cons: "conflictsOf plugins ((A, a) # ks) =
      (if pairErrs A a plugins = [] then [] else [(A, pairErrs A a plugins)])
      @ conflictsOf plugins ks"
    by (simp add: conflictsOf_def)
  show ?case
    using Cons.IH[OF d sub dj] step single
    by (simp add: p cons)
qed

lemma conflictReport_eq:
  "distinct (map fst plugins) \<Longrightarrow> conflictReport plugins = Some (conflictsOf plugins plugins)"
  using conflictsLoop_eq[of plugins plugins "[]"] by (simp add: conflictReport_def)

lemma reportedReasons_eq:
  assumes d: "distinct (map fst plugins)" and A: "map_of plugins A = Some a"
  shows "reportedReasons plugins A B =
     (case map_of plugins B of
        None \<Rightarrow> []
      | Some b \<Rightarrow> if B = A then [] else (case pairReason A a B b of None \<Rightarrow> [] | Some r \<Rightarrow> [r]))"
proof -
  have outer: "filter (\<lambda>p. fst p = A) (conflictsOf plugins plugins)
      = (if pairErrs A a plugins = [] then [] else [(A, pairErrs A a plugins)])"
  proof -
    have key: "\<And>k v p. p \<in> set (if pairErrs k v plugins = [] then []
                                   else [(k, pairErrs k v plugins)]) \<Longrightarrow> fst p = k"
      by (simp split: if_splits)
    show ?thesis
      unfolding conflictsOf_def
      using filter_concat_key[where f="\<lambda>A a. if pairErrs A a plugins = [] then []
                                             else [(A, pairErrs A a plugins)]"
        and ps=plugins and K=A, OF key d] A
      by simp
  qed
  have flat: "concat (map snd (filter (\<lambda>p. fst p = A) (conflictsOf plugins plugins)))
      = pairErrs A a plugins"
    by (simp add: outer)
  have inner: "filter (\<lambda>p. fst p = B) (pairErrs A a plugins)
      = (case map_of plugins B of None \<Rightarrow> []
         | Some b \<Rightarrow> if B = A then []
                     else (case pairReason A a B b of None \<Rightarrow> [] | Some r \<Rightarrow> [(B, r)]))"
  proof -
    have key: "\<And>k v p. p \<in> set (if k = A then []
                 else (case pairReason A a k v of None \<Rightarrow> [] | Some r \<Rightarrow> [(k, r)])) \<Longrightarrow> fst p = k"
      by (auto split: if_splits option.splits)
    show ?thesis
      unfolding pairErrs_def
      using filter_concat_key[where f="\<lambda>B b. if B = A then []
                 else (case pairReason A a B b of None \<Rightarrow> [] | Some r \<Rightarrow> [(B, r)])"
        and ps=plugins and K=B, OF key d]
      by simp
  qed
  show ?thesis
    by (simp add: reportedReasons_def conflictReport_eq[OF d] flat inner split: option.splits)
qed

section \<open>The formatting never panics\<close>

lemma innerLines_total:
  "set ks \<subseteq> fst ` set inner \<Longrightarrow> \<exists>s. innerLines h inner ks = Some s"
proof (induction ks)
  case Nil
  then show ?case by simp
next
  case (Cons k ks)
  then obtain v where "map_of inner k = Some v"
    by (metis list.set_intros(1) map_of_eq_None_iff not_Some_eq subsetD)
  moreover obtain s where "innerLines h inner ks = Some s"
    using Cons by auto
  ultimately show ?case by simp
qed

lemma outerLines_total: "\<exists>s. outerLines h conflicts ks = Some s"
proof (induction ks)
  case Nil
  then show ?case by simp
next
  case (Cons k ks)
  define inner where "inner = (case map_of conflicts k of None \<Rightarrow> [] | Some m \<Rightarrow> m)"
  obtain s where s: "innerLines h inner (SortLocators (map fst inner)) = Some s"
    using innerLines_total[of "SortLocators (map fst inner)" inner h]
    by (auto simp: SortLocators_def)
  obtain t where t: "outerLines h conflicts ks = Some t"
    using Cons by auto
  show ?case
    using s t by (simp add: inner_def[symmetric] Let_def)
qed

lemma formatConflicts_total: "\<exists>s. formatConflicts h conflicts = Some s"
  using outerLines_total[of h conflicts "SortLocators (map fst conflicts)"]
  by (auto simp: formatConflicts_def)

lemma verify_result:
  assumes "distinct (map fst plugins)"
  shows "verifyPluginCompatibility h plugins =
     (if conflictsOf plugins plugins = [] then None
      else map_option Error (formatConflicts h (conflictsOf plugins plugins)))"
  using formatConflicts_total[of h "conflictsOf plugins plugins"]
  by (auto simp: verifyPluginCompatibility_def conflictReport_eq[OF assms])

lemma reported_imp_fails:
  assumes "distinct (map fst plugins)" "reportedReasons plugins A B \<noteq> []"
  shows "\<exists>msg. verifyPluginCompatibility h plugins = Some (Error msg)"
proof -
  have "conflictsOf plugins plugins \<noteq> []"
    using assms by (auto simp: reportedReasons_def conflictReport_eq)
  then show ?thesis
    using formatConflicts_total[of h "conflictsOf plugins plugins"]
    by (auto simp: verify_result[OF assms(1)])
qed

lemma reasons_differ:
  "errConflictingTasks names \<noteq> errDifferentVersion"
  "errConflictingTasks names \<noteq> errSameProductConfig"
  "errSameProductConfig \<noteq> errDifferentVersion"
  by (simp_all add: errConflictingTasks_def errDifferentVersion_def errSameProductConfig_def)

section \<open>The text of the verifier's error\<close>

lemma map_of_filter_key: "map_of (filter (\<lambda>p. fst p = k) xs) k = map_of xs k"
  by (induction xs) auto

lemma concat_map_filter:
  "(\<And>x. x \<in> set xs \<Longrightarrow> \<not> Q x \<Longrightarrow> f x = []) \<Longrightarrow>
   concat (map f (filter Q xs)) = concat (map f xs)"
  by (induction xs) auto

lemma keys_concat_filter:
  assumes "\<And>k v. f k v = [] \<or> (\<exists>y. f k v = [(k, y)])"
  shows "distinct (map fst ps) \<Longrightarrow>
     map fst (concat (map (\<lambda>(k, v). f k v) ps))
       = filter (\<lambda>k. k \<in> fst ` set (concat (map (\<lambda>(k, v). f k v) ps))) (map fst ps)"
proof (induction ps)
  case Nil
  then show ?case by simp
next
  case (Cons q ps)
  obtain k v where q: "q = (k, v)" by (cases q)
  from Cons.prems have d: "distinct (map fst ps)" and nk: "k \<notin> fst ` set ps"
    by (auto simp: q)
  let ?rest = "concat (map (\<lambda>(k, v). f k v) ps)"
  have sub: "fst ` set ?rest \<subseteq> fst ` set ps"
  proof
    fix x
    assume "x \<in> fst ` set ?rest"
    then obtain k' v' p where m: "(k', v') \<in> set ps" and p: "p \<in> set (f k' v')" and x: "x = fst p"
      by auto
    from assms[of k' v'] p have "fst p = k'" by auto
    then show "x \<in> fst ` set ps"
      using m x by force
  qed
  have nrest: "k \<notin> fst ` set ?rest"
    using sub nk by blast
  have ok: "\<And>p. p \<in> set (f k v) \<Longrightarrow> fst p = k"
    using assms[of k v] by auto
  have tail: "filter (\<lambda>k'. k' \<in> fst ` set (f k v) \<or> k' \<in> fst ` set ?rest) (map fst ps)
      = filter (\<lambda>k'. k' \<in> fst ` set ?rest) (map fst ps)"
    using nk ok by (intro filter_cong) (auto simp: image_iff)
  show ?case
    using assms[of k v] Cons.IH[OF d] nrest tail
    by (auto simp: q image_Un)
qed

lemma pairErrs_shape:
  "(if B = A then [] else (case pairReason A a B b of None \<Rightarrow> [] | Some r \<Rightarrow> [(B, r)])) = []
   \<or> (\<exists>y. (if B = A then [] else (case pairReason A a B b of None \<Rightarrow> [] | Some r \<Rightarrow> [(B, r)]))
            = [(B, y)])"
  by (simp split: option.splits)

lemma keys_pairErrs:
  assumes "distinct (map fst plugins)"
  shows "map fst (pairErrs A a plugins)
     = filter (\<lambda>B. B \<in> fst ` set (pairErrs A a plugins)) (map fst plugins)"
  unfolding pairErrs_def
  by (rule keys_concat_filter[where f="\<lambda>B b. if B = A then []
        else (case pairReason A a B b of None \<Rightarrow> [] | Some r \<Rightarrow> [(B, r)])",
        OF pairErrs_shape assms])

lemma keys_conflictsOf:
  assumes "distinct (map fst plugins)"
  shows "map fst (conflictsOf plugins plugins)
     = filter (\<lambda>A. A \<in> fst ` set (conflictsOf plugins plugins)) (map fst plugins)"
proof -
  have shape: "\<And>k v. (if pairErrs k v plugins = [] then [] else [(k, pairErrs k v plugins)]) = []
      \<or> (\<exists>y. (if pairErrs k v plugins = [] then [] else [(k, pairErrs k v plugins)]) = [(k, y)])"
    by simp
  show ?thesis
    unfolding conflictsOf_def
    by (rule keys_concat_filter[where f="\<lambda>A a. if pairErrs A a plugins = [] then []
          else [(A, pairErrs A a plugins)]", OF shape assms])
qed

lemma distinct_keys_pairErrs:
  "distinct (map fst plugins) \<Longrightarrow> distinct (map fst (pairErrs A a plugins))"
  using keys_pairErrs[of plugins A a] by (metis distinct_filter)

lemma conflictsOf_entry:
  assumes d: "distinct (map fst plugins)" and A: "map_of plugins A = Some a"
  shows "filter (\<lambda>p. fst p = A) (conflictsOf plugins plugins)
      = (if pairErrs A a plugins = [] then [] else [(A, pairErrs A a plugins)])"
proof -
  have key: "\<And>k v p. p \<in> set (if pairErrs k v plugins = [] then []
                                   else [(k, pairErrs k v plugins)]) \<Longrightarrow> fst p = k"
    by (simp split: if_splits)
  show ?thesis
    unfolding conflictsOf_def
    using filter_concat_key[where f="\<lambda>A a. if pairErrs A a plugins = [] then []
                                             else [(A, pairErrs A a plugins)]"
        and ps=plugins and K=A, OF key d] A
    by simp
qed

lemma reportedReasons_pairErrs:
  assumes d: "distinct (map fst plugins)" and A: "map_of plugins A = Some a"
  shows "reportedReasons plugins A B
      = map snd (filter (\<lambda>p. fst p = B) (pairErrs A a plugins))"
  by (simp add: reportedReasons_def conflictReport_eq[OF d] conflictsOf_entry[OF d A])

lemma reportedReasons_lookup:
  assumes d: "distinct (map fst plugins)" and A: "map_of plugins A = Some a"
  shows "reportedReasons plugins A B
      = (case map_of (pairErrs A a plugins) B of None \<Rightarrow> [] | Some r \<Rightarrow> [r])"
proof -
  have "\<And>k v p. p \<in> set [(k, v)] \<Longrightarrow> fst p = k" by simp
  from filter_concat_key[where f="\<lambda>k v. [(k, v)]" and ps="pairErrs A a plugins" and K=B,
      OF this distinct_keys_pairErrs[OF d]]
  have "filter (\<lambda>p. fst p = B) (pairErrs A a plugins)
      = (case map_of (pairErrs A a plugins) B of None \<Rightarrow> [] | Some r \<Rightarrow> [(B, r)])"
    by (simp add: case_prod_unfold)
  then show ?thesis
    by (simp add: reportedReasons_pairErrs[OF d A] split: option.splits)
qed

lemma reported_iff_key:
  assumes d: "distinct (map fst plugins)" and A: "map_of plugins A = Some a"
  shows "reportedReasons plugins A B \<noteq> [] \<longleftrightarrow> B \<in> fst ` set (pairErrs A a plugins)"
proof -
  have "map_of (pairErrs A a plugins) B = None \<longleftrightarrow> B \<notin> fst ` set (pairErrs A a plugins)"
    by (rule map_of_eq_None_iff)
  then show ?thesis
    by (cases "map_of (pairErrs A a plugins) B") (simp_all add: reportedReasons_lookup[OF d A])
qed

lemma innerLines_eq:
  "set ks \<subseteq> fst ` set inner \<Longrightarrow>
   innerLines h inner ks
     = Some (concat (map (\<lambda>B. ''\<newline>'' @ spaces (IndentSpaces h * 2)
                               @ (case map_of inner B of None \<Rightarrow> [] | Some r \<Rightarrow> r)) ks))"
proof (induction ks)
  case Nil
  then show ?case by simp
next
  case (Cons k ks)
  then obtain v where "map_of inner k = Some v"
    by (metis list.set_intros(1) map_of_eq_None_iff not_Some_eq subsetD)
  then show ?case
    using Cons by simp
qed

lemma sorted_keys_pairErrs:
  assumes d: "distinct (map fst plugins)"
  shows "SortLocators (map fst (pairErrs A a plugins))
     = filter (\<lambda>B. B \<in> fst ` set (pairErrs A a plugins)) (SortLocators (map fst plugins))"
proof -
  have "sort_key locatorKey (map fst (pairErrs A a plugins))
      = sort_key locatorKey
          (filter (\<lambda>B. B \<in> fst ` set (pairErrs A a plugins)) (map fst plugins))"
    using keys_pairErrs[OF d, of A a] by (rule arg_cong)
  then show ?thesis
    unfolding SortLocators_def by (simp only: filter_sort)
qed

lemma innerLines_pairErrs:
  assumes d: "distinct (map fst plugins)" and A: "map_of plugins A = Some a"
  shows "innerLines h (pairErrs A a plugins) (SortLocators (map fst (pairErrs A a plugins)))
     = Some (partnerLines h plugins A)"
proof -
  let ?E = "pairErrs A a plugins"
  let ?ks = "SortLocators (map fst plugins)"
  let ?Q = "\<lambda>B. B \<in> fst ` set ?E"
  let ?f = "\<lambda>B. ''\<newline>'' @ spaces (IndentSpaces h * 2)
                 @ (case map_of ?E B of None \<Rightarrow> [] | Some r \<Rightarrow> r)"
  have sub: "set (SortLocators (map fst ?E)) \<subseteq> fst ` set ?E"
    by (simp add: SortLocators_def)
  have line: "?f B = pairLines h plugins A B" if "B \<in> fst ` set ?E" for B
  proof -
    have "map_of ?E B \<noteq> None"
      using that by (simp add: map_of_eq_None_iff)
    then obtain r where r: "map_of ?E B = Some r"
      by blast
    have "reportedReasons plugins A B = [r]"
      by (simp add: reportedReasons_lookup[OF d A] r)
    then show ?thesis
      by (simp add: pairLines_def r)
  qed
  have empty: "pairLines h plugins A B = []" if "B \<notin> fst ` set ?E" for B
  proof -
    have "reportedReasons plugins A B = []"
      using that reported_iff_key[OF d A, of B] by blast
    then show ?thesis
      by (simp add: pairLines_def)
  qed
  have m: "map ?f (filter ?Q ?ks) = map (pairLines h plugins A) (filter ?Q ?ks)"
  proof (rule map_cong[OF refl])
    fix B
    assume "B \<in> set (filter ?Q ?ks)"
    then have "B \<in> fst ` set ?E" by simp
    then show "?f B = pairLines h plugins A B" by (rule line)
  qed
  have "innerLines h ?E (SortLocators (map fst ?E))
      = Some (concat (map ?f (SortLocators (map fst ?E))))"
    by (rule innerLines_eq[OF sub])
  also have "\<dots> = Some (concat (map ?f (filter ?Q ?ks)))"
    by (simp only: sorted_keys_pairErrs[OF d])
  also have "\<dots> = Some (concat (map (pairLines h plugins A) (filter ?Q ?ks)))"
    by (simp only: m)
  also have "concat (map (pairLines h plugins A) (filter ?Q ?ks)) = partnerLines h plugins A"
    unfolding partnerLines_def
    by (rule concat_map_filter) (rule empty)
  finally show ?thesis .
qed

lemma conflictsOf_lookup:
  assumes d: "distinct (map fst plugins)" and A: "map_of plugins A = Some a"
  shows "map_of (conflictsOf plugins plugins) A
      = (if pairErrs A a plugins = [] then None else Some (pairErrs A a plugins))"
  using map_of_filter_key[of A "conflictsOf plugins plugins"]
  by (simp add: conflictsOf_entry[OF d A] split: if_splits)

lemma keys_conflictsOf_sub:
  assumes d: "distinct (map fst plugins)"
  shows "fst ` set (conflictsOf plugins plugins) \<subseteq> fst ` set plugins"
proof -
  have "set (map fst (conflictsOf plugins plugins)) \<subseteq> set (map fst plugins)"
    by (subst keys_conflictsOf[OF d]) (rule filter_is_subset)
  then show ?thesis by simp
qed

lemma keys_pairErrs_sub:
  assumes d: "distinct (map fst plugins)"
  shows "fst ` set (pairErrs A a plugins) \<subseteq> fst ` set plugins"
proof -
  have "set (map fst (pairErrs A a plugins)) \<subseteq> set (map fst plugins)"
    by (subst keys_pairErrs[OF d]) (rule filter_is_subset)
  then show ?thesis by simp
qed

lemma key_has_value: "k \<in> fst ` set ps \<Longrightarrow> \<exists>v. map_of ps k = Some v"
  by (cases "map_of ps k") (simp_all add: map_of_eq_None_iff)

lemma outerLines_eq:
  assumes d: "distinct (map fst plugins)"
  shows "set ks \<subseteq> fst ` set (conflictsOf plugins plugins) \<Longrightarrow>
     outerLines h (conflictsOf plugins plugins) ks
       = Some (concat (map (\<lambda>A. ''\<newline>'' @ spaces (IndentSpaces h) @ LocatorString h A @ '':''
                                 @ partnerLines h plugins A) ks))"
proof (induction ks)
  case Nil
  then show ?case by simp
next
  case (Cons k ks)
  have kin: "k \<in> fst ` set (conflictsOf plugins plugins)"
    using Cons.prems by simp
  then have "k \<in> fst ` set plugins"
    using keys_conflictsOf_sub[OF d] by blast
  then obtain a where a: "map_of plugins k = Some a"
    using key_has_value[of k plugins] by blast
  obtain e where e: "map_of (conflictsOf plugins plugins) k = Some e"
    using key_has_value[OF kin] by blast
  have look: "map_of (conflictsOf plugins plugins) k = Some (pairErrs k a plugins)"
    using e by (simp add: conflictsOf_lookup[OF d a] split: if_splits)
  have rest: "outerLines h (conflictsOf plugins plugins) ks
       = Some (concat (map (\<lambda>A. ''\<newline>'' @ spaces (IndentSpaces h) @ LocatorString h A @ '':''
                                 @ partnerLines h plugins A) ks))"
    using Cons by simp
  show ?case
    by (simp add: look rest innerLines_pairErrs[OF d a])
qed

lemma in_conflictsOf_iff:
  assumes d: "distinct (map fst plugins)" and A: "A \<in> set (map fst plugins)"
  shows "A \<in> fst ` set (conflictsOf plugins plugins)
     \<longleftrightarrow> (\<exists>B \<in> set (map fst plugins). reportedReasons plugins A B \<noteq> [])"
proof -
  obtain a where a: "map_of plugins A = Some a"
    using A key_has_value[of A plugins] by auto
  have keys: "fst ` set (pairErrs A a plugins) \<subseteq> set (map fst plugins)"
    using keys_pairErrs_sub[OF d, of A a] by simp
  have 1: "A \<in> fst ` set (conflictsOf plugins plugins) \<longleftrightarrow> pairErrs A a plugins \<noteq> []"
  proof -
    have "map_of (conflictsOf plugins plugins) A = None
        \<longleftrightarrow> A \<notin> fst ` set (conflictsOf plugins plugins)"
      by (rule map_of_eq_None_iff)
    then show ?thesis
      by (simp add: conflictsOf_lookup[OF d a] split: if_splits)
  qed
  have 2: "pairErrs A a plugins \<noteq> [] \<longleftrightarrow> (\<exists>B. B \<in> fst ` set (pairErrs A a plugins))"
    by (cases "pairErrs A a plugins") auto
  have 3: "(\<exists>B. B \<in> fst ` set (pairErrs A a plugins))
      \<longleftrightarrow> (\<exists>B \<in> set (map fst plugins). reportedReasons plugins A B \<noteq> [])"
  proof
    assume "\<exists>B. B \<in> fst ` set (pairErrs A a plugins)"
    then obtain B where B: "B \<in> fst ` set (pairErrs A a plugins)" by blast
    then have "B \<in> set (map fst plugins)" using keys by blast
    moreover have "reportedReasons plugins A B \<noteq> []"
      using B reported_iff_key[OF d a, of B] by blast
    ultimately show "\<exists>B \<in> set (map fst plugins). reportedReasons plugins A B \<noteq> []"
      by blast
  next
    assume "\<exists>B \<in> set (map fst plugins). reportedReasons plugins A B \<noteq> []"
    then obtain B where "reportedReasons plugins A B \<noteq> []" by blast
    then have "B \<in> fst ` set (pairErrs A a plugins)"
      using reported_iff_key[OF d a, of B] by blast
    then show "\<exists>B. B \<in> fst ` set (pairErrs A a plugins)" by blast
  qed
  show ?thesis
    using 1 2 3 by blast
qed

lemma offenders_eq:
  assumes d: "distinct (map fst plugins)"
  shows "SortLocators (map fst (conflictsOf plugins plugins)) = offenders plugins"
proof -
  let ?C = "conflictsOf plugins plugins"
  have "sort_key locatorKey (map fst ?C)
      = sort_key locatorKey (filter (\<lambda>A. A \<in> fst ` set ?C) (map fst plugins))"
    using keys_conflictsOf[OF d] by (rule arg_cong)
  then have "SortLocators (map fst ?C)
      = filter (\<lambda>A. A \<in> fst ` set ?C) (SortLocators (map fst plugins))"
    unfolding SortLocators_def by (simp only: filter_sort)
  also have "\<dots> = offenders plugins"
    unfolding offenders_def
  proof (rule filter_cong[OF refl])
    fix A
    assume "A \<in> set (SortLocators (map fst plugins))"
    then have "A \<in> set (map fst plugins)"
      by (simp add: SortLocators_def)
    then show "(A \<in> fst ` set ?C)
        = (\<exists>B \<in> set (map fst plugins). reportedReasons plugins A B \<noteq> [])"
      by (rule in_conflictsOf_iff[OF d])
  qed
  finally show ?thesis .
qed

lemma verify_text:
  assumes d: "distinct (map fst plugins)"
  shows "verifyPluginCompatibility h plugins
     = (if offenders plugins = [] then None else Some (Error (reportText h plugins)))"
proof -
  let ?C = "conflictsOf plugins plugins"
  have "length (SortLocators (map fst ?C)) = length ?C"
    by (simp add: SortLocators_def)
  then have len: "length ?C = length (offenders plugins)"
    by (simp add: offenders_eq[OF d])
  have sub: "set (SortLocators (map fst ?C)) \<subseteq> fst ` set ?C"
    by (simp add: SortLocators_def)
  have out: "outerLines h ?C (offenders plugins)
       = Some (concat (map (\<lambda>A. ''\<newline>'' @ spaces (IndentSpaces h) @ LocatorString h A @ '':''
                                 @ partnerLines h plugins A) (offenders plugins)))"
    using outerLines_eq[OF d sub, of h] by (simp only: offenders_eq[OF d])
  have fmt: "formatConflicts h ?C = Some (reportText h plugins)"
    by (simp add: formatConflicts_def reportText_def offenders_eq[OF d] out len)
  have nil: "?C = [] \<longleftrightarrow> offenders plugins = []"
    using len by (cases ?C; cases "offenders plugins") simp_all
  show ?thesis
    by (simp add: verifyPluginCompatibility_def conflictReport_eq[OF d] fmt nil)
qed

lemma concat_map_split:
  "x \<in> set xs \<Longrightarrow> \<exists>pre post. concat (map f xs) = pre @ f x @ post"
proof -
  assume "x \<in> set xs"
  then obtain ys zs where "xs = ys @ x # zs"
    by (auto dest: split_list)
  then have "concat (map f xs) = concat (map f ys) @ f x @ concat (map f zs)"
    by simp
  then show ?thesis by blast
qed

lemma offender_intro:
  assumes "A \<in> set (map fst plugins)" "B \<in> set (map fst plugins)"
    and "reportedReasons plugins A B \<noteq> []"
  shows "A \<in> set (offenders plugins)"
  using assms by (auto simp: offenders_def SortLocators_def)

lemma report_decomposes:
  assumes A: "A \<in> set (offenders plugins)" and B: "B \<in> set (map fst plugins)"
  shows "\<exists>pre mid rest post.
     reportText h plugins
       = pre @ ''\<newline>'' @ spaces (IndentSpaces h) @ LocatorString h A @ '':''
         @ mid @ pairLines h plugins A B @ rest @ post"
proof -
  let ?g = "\<lambda>A. ''\<newline>'' @ spaces (IndentSpaces h) @ LocatorString h A @ '':''
                 @ partnerLines h plugins A"
  obtain p1 p2 where o: "concat (map ?g (offenders plugins)) = p1 @ ?g A @ p2"
    using concat_map_split[OF A, of ?g] by blast
  have "B \<in> set (SortLocators (map fst plugins))"
    using B by (simp add: SortLocators_def)
  then obtain mid rest where i: "partnerLines h plugins A = mid @ pairLines h plugins A B @ rest"
    unfolding partnerLines_def
    using concat_map_split[of B "SortLocators (map fst plugins)" "pairLines h plugins A"]
    by blast
  have "reportText h plugins
      = (fmtD (length (offenders plugins)) @ '' plugins had compatibility issues:'' @ p1)
        @ ''\<newline>'' @ spaces (IndentSpaces h) @ LocatorString h A @ '':''
        @ mid @ pairLines h plugins A B @ rest @ p2"
    unfolding reportText_def o i by simp
  then show ?thesis by blast
qed

lemma reported_in_text:
  assumes d: "distinct (map fst plugins)"
    and A: "map_of plugins A = Some a" and B: "map_of plugins B = Some b"
    and r: "reportedReasons plugins A B = [reason]"
  shows "verifyPluginCompatibility h plugins = Some (Error (reportText h plugins))"
    and "A \<in> set (offenders plugins)"
    and "pairLines h plugins A B = ''\<newline>'' @ spaces (IndentSpaces h * 2) @ reason"
    and "\<exists>pre mid rest post.
           verifyPluginCompatibility h plugins
             = Some (Error (pre @ ''\<newline>'' @ spaces (IndentSpaces h) @ LocatorString h A @ '':''
                            @ mid @ ''\<newline>'' @ spaces (IndentSpaces h * 2) @ reason
                            @ rest @ post))"
proof -
  have kA: "A \<in> set (map fst plugins)"
    using A by (force dest: map_of_SomeD)
  have kB: "B \<in> set (map fst plugins)"
    using B by (force dest: map_of_SomeD)
  show off: "A \<in> set (offenders plugins)"
    using offender_intro[OF kA kB] r by simp
  then have ne: "offenders plugins \<noteq> []"
    by auto
  show v: "verifyPluginCompatibility h plugins = Some (Error (reportText h plugins))"
    using ne by (simp add: verify_text[OF d])
  show pl: "pairLines h plugins A B = ''\<newline>'' @ spaces (IndentSpaces h * 2) @ reason"
    by (simp add: pairLines_def r)
  obtain pre mid rest post where
    "reportText h plugins
       = pre @ ''\<newline>'' @ spaces (IndentSpaces h) @ LocatorString h A @ '':''
         @ mid @ pairLines h plugins A B @ rest @ post"
    using report_decomposes[OF off kB, of h] by blast
  then have "verifyPluginCompatibility h plugins
             = Some (Error (pre @ ''\<newline>'' @ spaces (IndentSpaces h) @ LocatorString h A @ '':''
                            @ mid @ ''\<newline>'' @ spaces (IndentSpaces h * 2) @ reason
                            @ rest @ post))"
    by (simp add: v pl)
  then show "\<exists>pre mid rest post.
           verifyPluginCompatibility h plugins
             = Some (Error (pre @ ''\<newline>'' @ spaces (IndentSpaces h) @ LocatorString h A @ '':''
                            @ mid @ ''\<newline>'' @ spaces (IndentSpaces h * 2) @ reason
                            @ rest @ post))"
    by blast
qed

lemma fmtD_1: "fmtD (Suc 0) = ''1''"
  by (simp add: fmtD.simps[of "Suc 0"] digitChar_def)

lemma fmtD_2: "fmtD (Suc (Suc 0)) = ''2''"
  by (simp add: fmtD.simps[of "Suc (Suc 0)"] digitChar_def)

lemma spaces_4: "spaces 4 = ''    ''"
  by (simp add: spaces_def eval_nat_numeral)

lemma spaces_8: "spaces 8 = ''        ''"
  by (simp add: spaces_def eval_nat_numeral)

lemmas verify_defs = verifyPluginCompatibility_def conflictReport_def
  verifySinglePluginCompatibility_def formatConflicts_def commonTasks_def taskNames_def
  sortStrings_def errDifferentVersion_def errSameProductConfig_def errConflictingTasks_def
  fmtV_def SortLocators_def locatorKey_def Let_def

lemmas example_defs = exHelpers_def exLocatorString_def exPlugin_def examplePluginInfo_def
  exA_def exB_def exC_def exD_def

lemma ex_verify_versions:
  "verifyPluginCompatibility exHelpers
     [(exA, exPlugin [''build''] False), (exB, exPlugin [''test''] False)]
   = Some (Error ''2 plugins had compatibility issues:\<newline>    g1:p1:1.0:\<newline>        different version of the same plugin\<newline>    g1:p1:2.0:\<newline>        different version of the same plugin'')"
  by (simp add: verify_defs example_defs fmtD_2 spaces_4 spaces_8)

lemma ex_verify_tasks:
  "verifyPluginCompatibility exHelpers
     [(exA, exPlugin [''test'', ''build'', ''lint''] False),
      (exD, exPlugin [''lint'', ''fmt'', ''build''] False)]
   = Some (Error ''2 plugins had compatibility issues:\<newline>    g1:p1:1.0:\<newline>        provides conflicting tasks: [build lint]\<newline>    g3:p3:1.0:\<newline>        provides conflicting tasks: [build lint]'')"
  by (simp add: verify_defs example_defs fmtD_2 spaces_4 spaces_8)

lemma ex_verify_config:
  "verifyPluginCompatibility exHelpers
     [(exA, exPlugin [''build''] True), (exC, exPlugin [''test''] True)]
   = Some (Error ''2 plugins had compatibility issues:\<newline>    g1:p1:1.0:\<newline>        plugins have the same product name and both use configuration (this not currently supported -- if this situation is encountered, please file an issue to flag it)\<newline>    g2:p1:1.0:\<newline>        plugins have the same product name and both use configuration (this not currently supported -- if this situation is encountered, please file an issue to flag it)'')"
  by (simp add: verify_defs example_defs fmtD_2 spaces_4 spaces_8)

section \<open>Claims about the verifier\<close>

text \<open>
  Claim C2. Let a resolved set hold two plugins \<open>A\<close> and \<open>B\<close> whose Locators have the
  same group and product and different versions. Then the ConflictReport holds for the
  pair, in each direction, exactly one reason, which is "different version of the same
  plugin", and \<^verbatim>\<open>verifyPluginCompatibility\<close> returns an error whose text is the report
  in full: the header with the number of offending plugins, the line of each offending
  plugin, and under it the lines of its partners. Both \<open>A\<close> and \<open>B\<close> are among the
  offending plugins; the lines under \<open>A\<close> for \<open>B\<close> are the one line of that reason,
  and so are those under \<open>B\<close> for \<open>A\<close>. Nothing is assumed of the tasks of the two
  plugins. (The report is keyed by ordered pairs: the one pair of plugins is entered
  once under \<open>A\<close> and once under \<open>B\<close>.)
\<close>

theorem duplicate_product_reported:
  assumes "distinct (map fst plugins)"
    and "map_of plugins A = Some a" and "map_of plugins B = Some b"
    and "Group A = Group B" and "Product A = Product B" and "Version A \<noteq> Version B"
  shows "reportedReasons plugins A B = [''different version of the same plugin'']
       \<and> reportedReasons plugins B A = [''different version of the same plugin'']
       \<and> verifyPluginCompatibility h plugins = Some (Error (reportText h plugins))
       \<and> A \<in> set (offenders plugins) \<and> B \<in> set (offenders plugins)
       \<and> pairLines h plugins A B
           = ''\<newline>'' @ spaces (IndentSpaces h * 2) @ ''different version of the same plugin''
       \<and> pairLines h plugins B A
           = ''\<newline>'' @ spaces (IndentSpaces h * 2) @ ''different version of the same plugin''
       \<and> (\<exists>pre mid rest post.
             verifyPluginCompatibility h plugins
               = Some (Error (pre @ ''\<newline>'' @ spaces (IndentSpaces h) @ LocatorString h A @ '':''
                              @ mid @ ''\<newline>'' @ spaces (IndentSpaces h * 2)
                              @ ''different version of the same plugin'' @ rest @ post)))
       \<and> (\<exists>pre mid rest post.
             verifyPluginCompatibility h plugins
               = Some (Error (pre @ ''\<newline>'' @ spaces (IndentSpaces h) @ LocatorString h B @ '':''
                              @ mid @ ''\<newline>'' @ spaces (IndentSpaces h * 2)
                              @ ''different version of the same plugin'' @ rest @ post)))"
proof -
  have ne: "A \<noteq> B" using assms(6) by auto
  have AB: "reportedReasons plugins A B = [''different version of the same plugin'']"
    using ne assms
    by (simp add: reportedReasons_eq[OF assms(1,2)] pairReason_def duplicateProduct_def
          errDifferentVersion_def)
  have BA: "reportedReasons plugins B A = [''different version of the same plugin'']"
    using ne assms
    by (simp add: reportedReasons_eq[OF assms(1,3)] pairReason_def duplicateProduct_def
          errDifferentVersion_def)
  note tA = reported_in_text[OF assms(1,2,3) AB]
  note tB = reported_in_text[OF assms(1,3,2) BA]
  show ?thesis
    using AB BA tA tB by blast
qed

text \<open>
  The example of the spec: \<^verbatim>\<open>g1/p1@1.0\<close> and \<^verbatim>\<open>g1/p1@2.0\<close> with disjoint task sets,
  and the text of the error in full.
\<close>

theorem duplicate_product_reported_witness:
  "distinct (map fst [(exA, exPlugin [''build''] False), (exB, exPlugin [''test''] False)])
   \<and> Group exA = Group exB \<and> Product exA = Product exB \<and> Version exA \<noteq> Version exB
   \<and> reportedReasons [(exA, exPlugin [''build''] False), (exB, exPlugin [''test''] False)] exA exB
       = [''different version of the same plugin'']
   \<and> reportedReasons [(exA, exPlugin [''build''] False), (exB, exPlugin [''test''] False)] exB exA
       = [''different version of the same plugin'']
   \<and> verifyPluginCompatibility exHelpers
         [(exA, exPlugin [''build''] False), (exB, exPlugin [''test''] False)]
       = Some (Error ''2 plugins had compatibility issues:\<newline>    g1:p1:1.0:\<newline>        different version of the same plugin\<newline>    g1:p1:2.0:\<newline>        different version of the same plugin'')
   \<and> reportText exHelpers
         [(exA, exPlugin [''build''] False), (exB, exPlugin [''test''] False)]
       = ''2 plugins had compatibility issues:\<newline>    g1:p1:1.0:\<newline>        different version of the same plugin\<newline>    g1:p1:2.0:\<newline>        different version of the same plugin''"
  using duplicate_product_reported
    [of "[(exA, exPlugin [''build''] False), (exB, exPlugin [''test''] False)]"
        exA "exPlugin [''build''] False" exB "exPlugin [''test''] False" exHelpers]
    ex_verify_versions
  by (simp add: exA_def exB_def)

text \<open>
  Claim C3. For an ordered pair \<open>(A, B)\<close> of distinct plugins of a resolved set: if
  neither the duplicate-product rule nor the config-collision rule matches and the two
  plugins declare a task name in common, the ConflictReport holds for the pair exactly
  one reason, "provides conflicting tasks:" followed by the list \<^const>\<open>commonTasks\<close>
  between brackets; that list is in ascending order and its elements are exactly the
  names both plugins declare (and it is the sorted list of the intersection when \<open>A\<close>
  declares no name twice); and the lines under \<open>A\<close> for \<open>B\<close> in the error that
  \<^verbatim>\<open>verifyPluginCompatibility\<close> returns are the one line of that reason. If one of the
  two earlier rules matches, the one reason recorded for the pair is that of the first
  rule that matches, no reason recorded is a task collision, and the lines under \<open>A\<close>
  for \<open>B\<close> are the one line of that earlier reason. In every case the call returns nil
  when no plugin offends and otherwise the error whose text is the report in full.
\<close>

theorem task_collision_reported:
  assumes "distinct (map fst plugins)"
    and "map_of plugins A = Some a" and "map_of plugins B = Some b" and "A \<noteq> B"
  shows "verifyPluginCompatibility h plugins
           = (if offenders plugins = [] then None else Some (Error (reportText h plugins)))
       \<and> (\<not> duplicateProduct A B \<and> \<not> configCollision A a B b
          \<and> set (taskNames (PluginInfo a)) \<inter> set (taskNames (PluginInfo b)) \<noteq> {}
          \<longrightarrow> reportedReasons plugins A B
                = [''provides conflicting tasks: [''
                   @ stringsJoin (commonTasks (PluginInfo a) (PluginInfo b)) '' '' @ '']'']
            \<and> sorted (commonTasks (PluginInfo a) (PluginInfo b))
            \<and> set (commonTasks (PluginInfo a) (PluginInfo b))
                = set (taskNames (PluginInfo a)) \<inter> set (taskNames (PluginInfo b))
            \<and> (distinct (taskNames (PluginInfo a)) \<longrightarrow>
                commonTasks (PluginInfo a) (PluginInfo b)
                  = sorted_list_of_set
                      (set (taskNames (PluginInfo a)) \<inter> set (taskNames (PluginInfo b))))
            \<and> verifyPluginCompatibility h plugins = Some (Error (reportText h plugins))
            \<and> A \<in> set (offenders plugins)
            \<and> pairLines h plugins A B
                = ''\<newline>'' @ spaces (IndentSpaces h * 2) @ ''provides conflicting tasks: [''
                  @ stringsJoin (commonTasks (PluginInfo a) (PluginInfo b)) '' '' @ '']''
            \<and> (\<exists>pre mid rest post.
                  verifyPluginCompatibility h plugins
                    = Some (Error (pre @ ''\<newline>'' @ spaces (IndentSpaces h)
                                   @ LocatorString h A @ '':''
                                   @ mid @ ''\<newline>'' @ spaces (IndentSpaces h * 2)
                                   @ (''provides conflicting tasks: [''
                                      @ stringsJoin (commonTasks (PluginInfo a) (PluginInfo b))
                                          '' '' @ '']'')
                                   @ rest @ post))))
       \<and> (duplicateProduct A B \<or> configCollision A a B b
          \<longrightarrow> reportedReasons plugins A B
                = [if duplicateProduct A B then ''different version of the same plugin''
                   else errSameProductConfig]
            \<and> (\<forall>r \<in> set (reportedReasons plugins A B).
                  \<forall>names. r \<noteq> ''provides conflicting tasks: '' @ names)
            \<and> verifyPluginCompatibility h plugins = Some (Error (reportText h plugins))
            \<and> pairLines h plugins A B
                = ''\<newline>'' @ spaces (IndentSpaces h * 2)
                  @ (if duplicateProduct A B then ''different version of the same plugin''
                     else errSameProductConfig))"
proof (intro conjI impI)
  show "verifyPluginCompatibility h plugins
           = (if offenders plugins = [] then None else Some (Error (reportText h plugins)))"
    by (rule verify_text[OF assms(1)])
next
  assume c: "\<not> duplicateProduct A B \<and> \<not> configCollision A a B b
          \<and> set (taskNames (PluginInfo a)) \<inter> set (taskNames (PluginInfo b)) \<noteq> {}"
  let ?r = "''provides conflicting tasks: [''
                   @ stringsJoin (commonTasks (PluginInfo a) (PluginInfo b)) '' '' @ '']''"
  show r: "reportedReasons plugins A B = [?r]"
    using assms(3,4) c
    by (simp add: reportedReasons_eq[OF assms(1,2)] pairReason_def errConflictingTasks_def
          fmtV_def)
  show "sorted (commonTasks (PluginInfo a) (PluginInfo b))"
    by (rule sorted_commonTasks)
  show "set (commonTasks (PluginInfo a) (PluginInfo b))
                = set (taskNames (PluginInfo a)) \<inter> set (taskNames (PluginInfo b))"
    by (rule set_commonTasks)
  show "commonTasks (PluginInfo a) (PluginInfo b)
                  = sorted_list_of_set
                      (set (taskNames (PluginInfo a)) \<inter> set (taskNames (PluginInfo b)))"
    if "distinct (taskNames (PluginInfo a))"
    using that by (rule commonTasks_distinct)
  note t = reported_in_text[OF assms(1,2,3) r]
  show "verifyPluginCompatibility h plugins = Some (Error (reportText h plugins))"
    by (rule t(1))
  show "A \<in> set (offenders plugins)"
    by (rule t(2))
  show "pairLines h plugins A B = ''\<newline>'' @ spaces (IndentSpaces h * 2) @ ?r"
    by (rule t(3))
  show "\<exists>pre mid rest post.
                  verifyPluginCompatibility h plugins
                    = Some (Error (pre @ ''\<newline>'' @ spaces (IndentSpaces h)
                                   @ LocatorString h A @ '':''
                                   @ mid @ ''\<newline>'' @ spaces (IndentSpaces h * 2)
                                   @ ?r @ rest @ post))"
    by (rule t(4))
next
  assume c: "duplicateProduct A B \<or> configCollision A a B b"
  let ?r = "if duplicateProduct A B then ''different version of the same plugin''
                   else errSameProductConfig"
  show r: "reportedReasons plugins A B = [?r]"
    using assms(3,4) c
    by (auto simp: reportedReasons_eq[OF assms(1,2)] pairReason_def errDifferentVersion_def)
  show "\<forall>r \<in> set (reportedReasons plugins A B).
                  \<forall>names. r \<noteq> ''provides conflicting tasks: '' @ names"
    unfolding r by (simp add: errSameProductConfig_def)
  note t = reported_in_text[OF assms(1,2,3) r]
  show "verifyPluginCompatibility h plugins = Some (Error (reportText h plugins))"
    by (rule t(1))
  show "pairLines h plugins A B = ''\<newline>'' @ spaces (IndentSpaces h * 2) @ ?r"
    by (rule t(3))
qed

lemma ex_taskNames: "taskNames (PluginInfo (exPlugin names cfg)) = names"
  by (simp add: taskNames_def exPlugin_def examplePluginInfo_def comp_def)

lemma ex_usesConfig: "UsesConfig (PluginInfo (exPlugin names cfg)) = cfg"
  by (simp add: exPlugin_def examplePluginInfo_def)

text \<open>
  Two plugins that share the tasks \<^verbatim>\<open>build\<close> and \<^verbatim>\<open>lint\<close>, with the text of the
  error in full; and two versions of one plugin that share a task, for which only the
  first rule reports.
\<close>

theorem task_collision_reported_witness:
  "reportedReasons [(exA, exPlugin [''test'', ''build'', ''lint''] False),
                    (exD, exPlugin [''lint'', ''fmt'', ''build''] False)] exA exD
     = [''provides conflicting tasks: [build lint]'']
   \<and> verifyPluginCompatibility exHelpers
        [(exA, exPlugin [''test'', ''build'', ''lint''] False),
         (exD, exPlugin [''lint'', ''fmt'', ''build''] False)]
       = Some (Error ''2 plugins had compatibility issues:\<newline>    g1:p1:1.0:\<newline>        provides conflicting tasks: [build lint]\<newline>    g3:p3:1.0:\<newline>        provides conflicting tasks: [build lint]'')
   \<and> reportText exHelpers
        [(exA, exPlugin [''test'', ''build'', ''lint''] False),
         (exD, exPlugin [''lint'', ''fmt'', ''build''] False)]
       = ''2 plugins had compatibility issues:\<newline>    g1:p1:1.0:\<newline>        provides conflicting tasks: [build lint]\<newline>    g3:p3:1.0:\<newline>        provides conflicting tasks: [build lint]''
   \<and> reportedReasons [(exA, exPlugin [''test''] False), (exB, exPlugin [''test''] False)]
         exA exB
       = [''different version of the same plugin'']
   \<and> verifyPluginCompatibility exHelpers
         [(exA, exPlugin [''test''] False), (exB, exPlugin [''test''] False)]
       = Some (Error ''2 plugins had compatibility issues:\<newline>    g1:p1:1.0:\<newline>        different version of the same plugin\<newline>    g1:p1:2.0:\<newline>        different version of the same plugin'')"
proof -
  have ctasks: "commonTasks (PluginInfo (exPlugin [''test'', ''build'', ''lint''] False))
      (PluginInfo (exPlugin [''lint'', ''fmt'', ''build''] False)) = [''build'', ''lint'']"
    by (simp add: commonTasks_def ex_taskNames sortStrings_def)
  note one = task_collision_reported
      [of "[(exA, exPlugin [''test'', ''build'', ''lint''] False),
            (exD, exPlugin [''lint'', ''fmt'', ''build''] False)]"
          exA "exPlugin [''test'', ''build'', ''lint''] False"
          exD "exPlugin [''lint'', ''fmt'', ''build''] False" exHelpers,
       THEN conjunct2, THEN conjunct1]
  have 1: "reportedReasons [(exA, exPlugin [''test'', ''build'', ''lint''] False),
                    (exD, exPlugin [''lint'', ''fmt'', ''build''] False)] exA exD
     = [''provides conflicting tasks: [build lint]'']
     \<and> verifyPluginCompatibility exHelpers
        [(exA, exPlugin [''test'', ''build'', ''lint''] False),
         (exD, exPlugin [''lint'', ''fmt'', ''build''] False)]
       = Some (Error (reportText exHelpers
        [(exA, exPlugin [''test'', ''build'', ''lint''] False),
         (exD, exPlugin [''lint'', ''fmt'', ''build''] False)]))"
    using one
    by (simp add: exA_def exD_def duplicateProduct_def configCollision_def ex_taskNames
          ex_usesConfig ctasks)
  note two = task_collision_reported
      [of "[(exA, exPlugin [''test''] False), (exB, exPlugin [''test''] False)]"
          exA "exPlugin [''test''] False" exB "exPlugin [''test''] False" exHelpers,
       THEN conjunct2, THEN conjunct2]
  have 2: "reportedReasons [(exA, exPlugin [''test''] False), (exB, exPlugin [''test''] False)]
         exA exB
       = [''different version of the same plugin'']"
    using two by (simp add: exA_def exB_def duplicateProduct_def)
  have 3: "verifyPluginCompatibility exHelpers
         [(exA, exPlugin [''test''] False), (exB, exPlugin [''test''] False)]
       = Some (Error ''2 plugins had compatibility issues:\<newline>    g1:p1:1.0:\<newline>        different version of the same plugin\<newline>    g1:p1:2.0:\<newline>        different version of the same plugin'')"
    by (simp add: verify_defs example_defs fmtD_2 spaces_4 spaces_8)
  show ?thesis
    using 1 2 3 ex_verify_tasks by simp
qed

text \<open>
  Claim C4. Let a resolved set hold two plugins whose Locators have different groups
  and the same product. If both use configuration, the ConflictReport holds for the
  pair, in each direction, exactly the config-collision reason, whatever their tasks
  are; \<^verbatim>\<open>verifyPluginCompatibility\<close> returns an error whose text is the report in full,
  both plugins are among the offending ones, and the lines under each for the other
  are the one line of that reason. If at most one of them uses configuration, the
  config-collision reason is not recorded for the pair, and the lines of the pair in
  the report, which are built from the recorded reasons, do not hold it. In every case
  the call returns nil when no plugin offends and otherwise the error whose text is
  the report in full.
\<close>

theorem config_collision_reported:
  assumes "distinct (map fst plugins)"
    and "map_of plugins A = Some a" and "map_of plugins B = Some b"
    and "Group A \<noteq> Group B" and "Product A = Product B"
  shows "verifyPluginCompatibility h plugins
           = (if offenders plugins = [] then None else Some (Error (reportText h plugins)))
       \<and> (UsesConfig (PluginInfo a) \<and> UsesConfig (PluginInfo b)
          \<longrightarrow> reportedReasons plugins A B = [''plugins have the same product name and both use configuration (this not currently supported -- if this situation is encountered, please file an issue to flag it)'']
              \<and> reportedReasons plugins B A = [''plugins have the same product name and both use configuration (this not currently supported -- if this situation is encountered, please file an issue to flag it)'']
              \<and> verifyPluginCompatibility h plugins = Some (Error (reportText h plugins))
              \<and> A \<in> set (offenders plugins) \<and> B \<in> set (offenders plugins)
              \<and> pairLines h plugins A B
                  = ''\<newline>'' @ spaces (IndentSpaces h * 2) @ ''plugins have the same product name and both use configuration (this not currently supported -- if this situation is encountered, please file an issue to flag it)''
              \<and> pairLines h plugins B A
                  = ''\<newline>'' @ spaces (IndentSpaces h * 2) @ ''plugins have the same product name and both use configuration (this not currently supported -- if this situation is encountered, please file an issue to flag it)''
              \<and> (\<exists>pre mid rest post.
                    verifyPluginCompatibility h plugins
                      = Some (Error (pre @ ''\<newline>'' @ spaces (IndentSpaces h)
                                     @ LocatorString h A @ '':''
                                     @ mid @ ''\<newline>'' @ spaces (IndentSpaces h * 2)
                                     @ ''plugins have the same product name and both use configuration (this not currently supported -- if this situation is encountered, please file an issue to flag it)''
                                     @ rest @ post))))
       \<and> (\<not> (UsesConfig (PluginInfo a) \<and> UsesConfig (PluginInfo b))
          \<longrightarrow> ''plugins have the same product name and both use configuration (this not currently supported -- if this situation is encountered, please file an issue to flag it)''
                \<notin> set (reportedReasons plugins A B)
              \<and> ''plugins have the same product name and both use configuration (this not currently supported -- if this situation is encountered, please file an issue to flag it)''
                \<notin> set (reportedReasons plugins B A)
              \<and> pairLines h plugins A B
                  = concat (map (\<lambda>reason. ''\<newline>'' @ spaces (IndentSpaces h * 2) @ reason)
                      (reportedReasons plugins A B)))"
proof -
  let ?c = "''plugins have the same product name and both use configuration (this not currently supported -- if this situation is encountered, please file an issue to flag it)''"
  have c: "errSameProductConfig = ?c"
    by (simp add: errSameProductConfig_def)
  have ne: "A \<noteq> B" using assms(4) by auto
  have AB: "reportedReasons plugins A B =
      (case pairReason A a B b of None \<Rightarrow> [] | Some r \<Rightarrow> [r])"
    using ne assms(3) by (simp add: reportedReasons_eq[OF assms(1,2)])
  have BA: "reportedReasons plugins B A =
      (case pairReason B b A a of None \<Rightarrow> [] | Some r \<Rightarrow> [r])"
    using ne assms(2) by (simp add: reportedReasons_eq[OF assms(1,3)])
  have yes: "UsesConfig (PluginInfo a) \<and> UsesConfig (PluginInfo b) \<Longrightarrow>
      pairReason A a B b = Some errSameProductConfig
      \<and> pairReason B b A a = Some errSameProductConfig"
    using assms(4,5) by (simp add: pairReason_def duplicateProduct_def configCollision_def)
  have no: "\<not> (UsesConfig (PluginInfo a) \<and> UsesConfig (PluginInfo b)) \<Longrightarrow>
      pairReason A a B b \<noteq> Some errSameProductConfig
      \<and> pairReason B b A a \<noteq> Some errSameProductConfig"
    using assms(4,5) reasons_differ(2)
    by (auto simp: pairReason_def duplicateProduct_def configCollision_def)
  have all: "verifyPluginCompatibility h plugins
           = (if offenders plugins = [] then None else Some (Error (reportText h plugins)))"
    by (rule verify_text[OF assms(1)])
  have pos: "reportedReasons plugins A B = [?c] \<and> reportedReasons plugins B A = [?c]
       \<and> verifyPluginCompatibility h plugins = Some (Error (reportText h plugins))
       \<and> A \<in> set (offenders plugins) \<and> B \<in> set (offenders plugins)
       \<and> pairLines h plugins A B = ''\<newline>'' @ spaces (IndentSpaces h * 2) @ ?c
       \<and> pairLines h plugins B A = ''\<newline>'' @ spaces (IndentSpaces h * 2) @ ?c
       \<and> (\<exists>pre mid rest post.
                    verifyPluginCompatibility h plugins
                      = Some (Error (pre @ ''\<newline>'' @ spaces (IndentSpaces h)
                                     @ LocatorString h A @ '':''
                                     @ mid @ ''\<newline>'' @ spaces (IndentSpaces h * 2)
                                     @ ?c @ rest @ post)))"
    if u: "UsesConfig (PluginInfo a) \<and> UsesConfig (PluginInfo b)"
  proof -
    have rA: "reportedReasons plugins A B = [?c]"
      using yes[OF u] by (simp add: AB c)
    have rB: "reportedReasons plugins B A = [?c]"
      using yes[OF u] by (simp add: BA c)
    note tA = reported_in_text[OF assms(1,2,3) rA]
    note tB = reported_in_text[OF assms(1,3,2) rB]
    show ?thesis
      using rA rB tA tB by blast
  qed
  have neg: "?c \<notin> set (reportedReasons plugins A B) \<and> ?c \<notin> set (reportedReasons plugins B A)
       \<and> pairLines h plugins A B
           = concat (map (\<lambda>reason. ''\<newline>'' @ spaces (IndentSpaces h * 2) @ reason)
               (reportedReasons plugins A B))"
    if n: "\<not> (UsesConfig (PluginInfo a) \<and> UsesConfig (PluginInfo b))"
  proof -
    have "errSameProductConfig \<notin> set (reportedReasons plugins A B)"
      using no[OF n] by (auto simp: AB split: option.splits)
    moreover have "errSameProductConfig \<notin> set (reportedReasons plugins B A)"
      using no[OF n] by (auto simp: BA split: option.splits)
    ultimately show ?thesis
      unfolding c by (simp add: pairLines_def)
  qed
  show ?thesis
    using all pos neg by blast
qed

text \<open>
  Two plugins with the product \<^verbatim>\<open>p1\<close> in different groups: both use configuration and
  have disjoint tasks, with the text of the error in full; and only one uses
  configuration while they share a task.
\<close>

theorem config_collision_reported_witness:
  "reportedReasons [(exA, exPlugin [''build''] True), (exC, exPlugin [''test''] True)] exA exC
     = [''plugins have the same product name and both use configuration (this not currently supported -- if this situation is encountered, please file an issue to flag it)'']
   \<and> set (taskNames (PluginInfo (exPlugin [''build''] True)))
       \<inter> set (taskNames (PluginInfo (exPlugin [''test''] True))) = {}
   \<and> verifyPluginCompatibility exHelpers
        [(exA, exPlugin [''build''] True), (exC, exPlugin [''test''] True)]
       = Some (Error ''2 plugins had compatibility issues:\<newline>    g1:p1:1.0:\<newline>        plugins have the same product name and both use configuration (this not currently supported -- if this situation is encountered, please file an issue to flag it)\<newline>    g2:p1:1.0:\<newline>        plugins have the same product name and both use configuration (this not currently supported -- if this situation is encountered, please file an issue to flag it)'')
   \<and> reportText exHelpers
        [(exA, exPlugin [''build''] True), (exC, exPlugin [''test''] True)]
       = ''2 plugins had compatibility issues:\<newline>    g1:p1:1.0:\<newline>        plugins have the same product name and both use configuration (this not currently supported -- if this situation is encountered, please file an issue to flag it)\<newline>    g2:p1:1.0:\<newline>        plugins have the same product name and both use configuration (this not currently supported -- if this situation is encountered, please file an issue to flag it)''
   \<and> ''plugins have the same product name and both use configuration (this not currently supported -- if this situation is encountered, please file an issue to flag it)''
       \<notin> set (reportedReasons
                [(exA, exPlugin [''build''] True), (exC, exPlugin [''build''] False)] exA exC)
   \<and> verifyPluginCompatibility exHelpers
        [(exA, exPlugin [''build''] True), (exC, exPlugin [''build''] False)]
       = Some (Error ''2 plugins had compatibility issues:\<newline>    g1:p1:1.0:\<newline>        provides conflicting tasks: [build]\<newline>    g2:p1:1.0:\<newline>        provides conflicting tasks: [build]'')"
proof -
  have 1: "reportedReasons [(exA, exPlugin [''build''] True), (exC, exPlugin [''test''] True)]
        exA exC
     = [''plugins have the same product name and both use configuration (this not currently supported -- if this situation is encountered, please file an issue to flag it)'']
     \<and> verifyPluginCompatibility exHelpers
        [(exA, exPlugin [''build''] True), (exC, exPlugin [''test''] True)]
       = Some (Error (reportText exHelpers
        [(exA, exPlugin [''build''] True), (exC, exPlugin [''test''] True)]))"
    using config_collision_reported
      [of "[(exA, exPlugin [''build''] True), (exC, exPlugin [''test''] True)]"
          exA "exPlugin [''build''] True" exC "exPlugin [''test''] True" exHelpers,
       THEN conjunct2, THEN conjunct1]
    by (simp add: exA_def exC_def ex_usesConfig)
  have 2: "''plugins have the same product name and both use configuration (this not currently supported -- if this situation is encountered, please file an issue to flag it)''
       \<notin> set (reportedReasons
                [(exA, exPlugin [''build''] True), (exC, exPlugin [''build''] False)] exA exC)"
    using config_collision_reported
      [of "[(exA, exPlugin [''build''] True), (exC, exPlugin [''build''] False)]"
          exA "exPlugin [''build''] True" exC "exPlugin [''build''] False" exHelpers,
       THEN conjunct2, THEN conjunct2]
    by (simp add: exA_def exC_def ex_usesConfig)
  have 3: "verifyPluginCompatibility exHelpers
        [(exA, exPlugin [''build''] True), (exC, exPlugin [''build''] False)]
       = Some (Error ''2 plugins had compatibility issues:\<newline>    g1:p1:1.0:\<newline>        provides conflicting tasks: [build]\<newline>    g2:p1:1.0:\<newline>        provides conflicting tasks: [build]'')"
    by (simp add: verify_defs example_defs fmtD_2 spaces_4 spaces_8)
  show ?thesis
    using 1 2 3 ex_verify_config by (simp add: ex_taskNames)
qed

section \<open>The aggregator\<close>

lemma tasksLoop_eq:
  "set ks \<subseteq> fst ` set plugins \<Longrightarrow>
   tasksLoop h pluginsDir assetsDir plugins ks (tasks, ups) =
     Inr (tasks @ concat (map (tasksOf h pluginsDir assetsDir plugins) ks),
          ups @ concat (map (upgradeTaskOf h pluginsDir assetsDir plugins) ks))"
proof (induction ks arbitrary: tasks ups)
  case Nil
  then show ?case by simp
next
  case (Cons k ks)
  then obtain p where p: "map_of plugins k = Some p"
    by (metis list.set_intros(1) map_of_eq_None_iff not_Some_eq subsetD)
  have sub: "set ks \<subseteq> fst ` set plugins"
    using Cons.prems by simp
  show ?case
    using Cons.IH[OF sub] p
    by (simp add: Let_def tasksOf_def upgradeTaskOf_def split: option.splits)
qed

text \<open>
  Claim C9. The aggregator returns (it does not panic) the concatenation, over the
  Locators of the set in sorted order, of the tasks of each plugin as the plugin
  materializes them, and as second result the upgrade-config tasks of the plugins that
  have one, over the same order. The sorted list is in the order of the Locator key; it
  holds the Locators of the set and no others, each once when the keys of the set are
  distinct, as those of a Go map are. Nothing is reordered or removed after that: the
  number of tasks returned is the sum of the numbers of tasks of the plugins.
\<close>

theorem aggregate_in_sorted_order:
  "aggregateTasks h pluginsDir assetsDir plugins =
     Inr (concat (map (tasksOf h pluginsDir assetsDir plugins) (SortLocators (map fst plugins))),
          concat (map (upgradeTaskOf h pluginsDir assetsDir plugins)
                   (SortLocators (map fst plugins))))
   \<and> sorted (map locatorKey (SortLocators (map fst plugins)))
   \<and> set (SortLocators (map fst plugins)) = fst ` set plugins
   \<and> distinct (SortLocators (map fst plugins)) = distinct (map fst plugins)
   \<and> length (SortLocators (map fst plugins)) = length plugins
   \<and> (\<exists>tasks ups. aggregateTasks h pluginsDir assetsDir plugins = Inr (tasks, ups)
        \<and> length tasks
            = sum_list (map (\<lambda>l. length (tasksOf h pluginsDir assetsDir plugins l))
                (SortLocators (map fst plugins))))"
proof -
  have sub: "set (SortLocators (map fst plugins)) \<subseteq> fst ` set plugins"
    by (simp add: SortLocators_def)
  have eq: "aggregateTasks h pluginsDir assetsDir plugins =
     Inr (concat (map (tasksOf h pluginsDir assetsDir plugins) (SortLocators (map fst plugins))),
          concat (map (upgradeTaskOf h pluginsDir assetsDir plugins)
                   (SortLocators (map fst plugins))))"
    using tasksLoop_eq[OF sub, of h pluginsDir assetsDir "[]" "[]"]
    by (simp add: aggregateTasks_def)
  show ?thesis
    by (simp add: eq SortLocators_def length_concat comp_def)
qed

text \<open>An example: three plugins, given out of order; the second has an upgrade task.\<close>

theorem aggregate_in_sorted_order_witness:
  "aggregateTasks exHelpers ''/plugins'' ''/assets''
     [(exD, \<lparr>PluginInfo = examplePluginInfo [''z'', ''a''] False None, Assets = [exC]\<rparr>),
      (exB, \<lparr>PluginInfo = examplePluginInfo [''m''] True (Some ''upgrade:''), Assets = []\<rparr>),
      (exA, \<lparr>PluginInfo = examplePluginInfo [''y'', ''b''] False None, Assets = []\<rparr>)]
   = Inr ([\<lparr>Name = ''y'', \<dots> = (''/plugins/p1-1.0'', [])\<rparr>,
           \<lparr>Name = ''b'', \<dots> = (''/plugins/p1-1.0'', [])\<rparr>,
           \<lparr>Name = ''m'', \<dots> = (''/plugins/p1-2.0'', [])\<rparr>,
           \<lparr>Name = ''z'', \<dots> = (''/plugins/p3-1.0'', [''/assets/p1-1.0''])\<rparr>,
           \<lparr>Name = ''a'', \<dots> = (''/plugins/p3-1.0'', [''/assets/p1-1.0''])\<rparr>],
          [''upgrade:/plugins/p1-2.0''])"
  using aggregate_in_sorted_order
    [of exHelpers "''/plugins''" "''/assets''"
        "[(exD, \<lparr>PluginInfo = examplePluginInfo [''z'', ''a''] False None, Assets = [exC]\<rparr>),
          (exB, \<lparr>PluginInfo = examplePluginInfo [''m''] True (Some ''upgrade:''), Assets = []\<rparr>),
          (exA, \<lparr>PluginInfo = examplePluginInfo [''y'', ''b''] False None, Assets = []\<rparr>)]"]
  by (simp add: SortLocators_def locatorKey_def exA_def exB_def exC_def exD_def exHelpers_def
        examplePluginInfo_def tasksOf_def upgradeTaskOf_def)

section \<open>Maps filled by assignments\<close>

lemma map_of_recordAll:
  "map_of (recordAll al kvs) k =
     (case map_of (rev kvs) k of None \<Rightarrow> map_of al k | Some v \<Rightarrow> Some v)"
proof (induction kvs arbitrary: al)
  case Nil
  then show ?case by simp
next
  case (Cons kv kvs)
  obtain k' v where kv: "kv = (k', v)" by (cases kv)
  show ?case
    by (simp add: kv Cons.IH update_conv' map_add_def split: option.splits)
qed

lemma keys_recordAll: "fst ` set (recordAll al kvs) = fst ` set al \<union> fst ` set kvs"
proof (induction kvs arbitrary: al)
  case Nil
  then show ?case by simp
next
  case (Cons kv kvs)
  obtain k' v where kv: "kv = (k', v)" by (cases kv)
  show ?case
    by (simp add: kv Cons.IH dom_update)
qed

lemma distinct_recordAll:
  "distinct (map fst al) \<Longrightarrow> distinct (map fst (recordAll al kvs))"
proof (induction kvs arbitrary: al)
  case Nil
  then show ?case by simp
next
  case (Cons kv kvs)
  obtain k' v where kv: "kv = (k', v)" by (cases kv)
  show ?case
    using Cons.prems by (simp add: kv Cons.IH distinct_update)
qed

lemma recordAll_Nil_iff: "recordAll [] kvs = [] \<longleftrightarrow> kvs = []"
  using keys_recordAll[of "[]" kvs]
  by (metis empty_set image_is_empty set_empty sup_bot_left)

section \<open>The loop of the coordinator records the outcome of every declaration\<close>

lemma resolveStep_eq:
  "resolveStep h x pluginsDir assetsDir downloadsDir osArch pluginsParam d (P, E, w) =
     (case attemptDeclaration h x pluginsDir assetsDir downloadsDir osArch pluginsParam d w of
        (Inl err, w') \<Rightarrow> (P, AList.update (ParamLocator (LocatorWithResolverParam d)) err E, w')
      | (Inr v, w') \<Rightarrow> (AList.update (ParamLocator (LocatorWithResolverParam d)) v P, E, w'))"
  by (simp add: resolveStep_def attemptDeclaration_def ResolveAndVerify_def
        split: prod.splits option.splits sum.splits)

lemma failures_Cons:
  "failures ((l, out) # outs) = (case out of Inl err \<Rightarrow> [(l, err)] | Inr v \<Rightarrow> []) @ failures outs"
  by (simp add: failures_def)

lemma successes_Cons:
  "successes ((l, out) # outs) = (case out of Inl err \<Rightarrow> [] | Inr v \<Rightarrow> [(l, v)]) @ successes outs"
  by (simp add: successes_def)

lemma resolveLoop_eq:
  "resolveLoop h x pluginsDir assetsDir downloadsDir osArch pluginsParam ds (P, E, w) =
     (case attemptAll h x pluginsDir assetsDir downloadsDir osArch pluginsParam ds w of
        (outs, w') \<Rightarrow> (recordAll P (successes outs), recordAll E (failures outs), w'))"
proof (induction ds arbitrary: P E w)
  case Nil
  then show ?case by (simp add: resolveLoop_def failures_def successes_def)
next
  case (Cons d ds)
  have unfold: "resolveLoop h x pluginsDir assetsDir downloadsDir osArch pluginsParam (d # ds) st =
      resolveLoop h x pluginsDir assetsDir downloadsDir osArch pluginsParam ds
        (resolveStep h x pluginsDir assetsDir downloadsDir osArch pluginsParam d st)" for st
    by (simp add: resolveLoop_def)
  show ?case
    by (simp add: unfold resolveStep_eq Cons.IH failures_Cons successes_Cons
          split: prod.splits sum.splits)
qed

lemma fst_attemptAll:
  "attemptAll h x pluginsDir assetsDir downloadsDir osArch pluginsParam ds w = (outs, w') \<Longrightarrow>
   map fst outs = map (\<lambda>d. ParamLocator (LocatorWithResolverParam d)) ds"
  by (induction ds arbitrary: w outs w') (auto split: prod.splits)

section \<open>What the coordinator does to the world\<close>

lemma attempted_append: "attempted (es @ fs) = attempted es @ attempted fs"
  by (induction es rule: attempted.induct) simp_all

lemma writes_append: "writes (es @ fs) = writes es @ writes fs"
  by (induction es rule: writes.induct) simp_all

lemma writes_resolution: "list_all resolutionEvent es \<Longrightarrow> writes es = []"
  by (induction es rule: writes.induct) simp_all

lemma attemptDeclaration_world:
  assumes "attemptDeclaration h x pluginsDir assetsDir downloadsDir osArch pluginsParam d w
             = (out, w')"
  shows "\<exists>evs. Log w' = Log w @ evs \<and> list_all resolutionEvent evs
           \<and> attempted evs = [ParamLocator (LocatorWithResolverParam d)]
           \<and> Files w' = Files w"
  using assms
  by (auto simp: attemptDeclaration_def callBackend_def callInfoFromPlugin_def
        callResolveAssets_def split: prod.splits option.splits sum.splits)

lemma attemptAll_world:
  "attemptAll h x pluginsDir assetsDir downloadsDir osArch pluginsParam ds w = (outs, w') \<Longrightarrow>
   \<exists>evs. Log w' = Log w @ evs \<and> list_all resolutionEvent evs
         \<and> attempted evs = map (\<lambda>d. ParamLocator (LocatorWithResolverParam d)) ds
         \<and> Files w' = Files w"
proof (induction ds arbitrary: w outs w')
  case Nil
  then show ?case by simp
next
  case (Cons d ds)
  obtain out w1 where a: "attemptDeclaration h x pluginsDir assetsDir downloadsDir osArch
      pluginsParam d w = (out, w1)"
    by (cases "attemptDeclaration h x pluginsDir assetsDir downloadsDir osArch pluginsParam d w")
  obtain outs2 w2 where b: "attemptAll h x pluginsDir assetsDir downloadsDir osArch
      pluginsParam ds w1 = (outs2, w2)"
    by (cases "attemptAll h x pluginsDir assetsDir downloadsDir osArch pluginsParam ds w1")
  have w2: "w' = w2"
    using Cons.prems a b by simp
  obtain e1 where e1: "Log w1 = Log w @ e1" "list_all resolutionEvent e1"
      "attempted e1 = [ParamLocator (LocatorWithResolverParam d)]" "Files w1 = Files w"
    using attemptDeclaration_world[OF a] by blast
  obtain e2 where e2: "Log w2 = Log w1 @ e2" "list_all resolutionEvent e2"
      "attempted e2 = map (\<lambda>d. ParamLocator (LocatorWithResolverParam d)) ds"
      "Files w2 = Files w1"
    using Cons.IH[OF b] by blast
  show ?case
    using e1 e2 by (intro exI[of _ "e1 @ e2"]) (simp add: w2 attempted_append)
qed

section \<open>The summary of the failures\<close>

lemma stringsJoin_Cons:
  "stringsJoin (p # ps) sep = p @ concat (map (\<lambda>q. sep @ q) ps)"
  by (induction ps arbitrary: p) simp_all

lemma errStrings_eq:
  "set ks \<subseteq> fst ` set E \<Longrightarrow>
   errStrings E ks = Some (map (\<lambda>k. case map_of E k of None \<Rightarrow> [] | Some err \<Rightarrow> err) ks)"
proof (induction ks)
  case Nil
  then show ?case by simp
next
  case (Cons k ks)
  then obtain v where "map_of E k = Some v"
    by (metis list.set_intros(1) map_of_eq_None_iff not_Some_eq subsetD)
  then show ?case
    using Cons by simp
qed

lemma summarizeErrors_eq:
  "summarizeErrors h (recordAll [] (failures outs)) =
     Error (''failed to resolve '' @ fmtD (length (recordAll [] (failures outs)))
            @ '' plugin(s):''
            @ concat (map (\<lambda>l. ''\<newline>'' @ spaces (IndentSpaces h) @ reasonOf outs l)
                       (SortLocators (map fst (recordAll [] (failures outs))))))"
proof -
  let ?E = "recordAll [] (failures outs)"
  have sub: "set (SortLocators (map fst ?E)) \<subseteq> fst ` set ?E"
    by (simp add: SortLocators_def)
  have look: "(case map_of ?E k of None \<Rightarrow> [] | Some err \<Rightarrow> err) = reasonOf outs k" for k
    by (simp add: map_of_recordAll reasonOf_def split: option.splits)
  show ?thesis
    by (simp add: summarizeErrors_def errStrings_eq[OF sub] look stringsJoin_Cons comp_def)
qed

lemma resolvePlugins_locked:
  assumes "MutexLock x (lockPath h pluginsDir) (Disk w) = None"
    and "attemptAll h x pluginsDir assetsDir downloadsDir osArch pluginsParam
           (Plugins pluginsParam) (w\<lparr>Log := Log w @ [EvLock (lockPath h pluginsDir)]\<rparr>)
         = (outs, w')"
  shows "resolvePlugins h x pluginsDir assetsDir downloadsDir osArch pluginsParam w =
     (if failures outs = [] then Inr (recordAll [] (successes outs))
      else Inl (summarizeErrors h (recordAll [] (failures outs))),
      w'\<lparr>Log := Log w' @ [EvUnlock (lockPath h pluginsDir)]\<rparr>)"
  using assms
  by (simp add: resolvePlugins_def lockPath_def resolveLoop_eq recordAll_Nil_iff)

lemmas ex_defs = exHelpers_def exExternals_def exParams_def exWorld_def exDecl_def
  exA_def exB_def exC_def exD_def exLocatorString_def examplePluginInfo_def exPlugin_def exCached_def

lemmas call_defs = callBackend_def callInfoFromPlugin_def callResolveAssets_def

text \<open>
  Claim C1. Let a call of \<^verbatim>\<open>resolvePlugins\<close> get the lock, and let \<open>outs\<close> be the
  outcomes of its declarations. Then every declaration is attempted, in order, whatever
  the outcomes of the earlier ones are: the log shows one call of
  \<^verbatim>\<open>ResolveAndVerify\<close> per declaration. If no declaration fails, the call returns the
  accumulated set and no error. If one fails, it returns no set and one error, whose
  text is a header with the number of failed Locators followed, for each failed
  Locator, by a line break, the indent and the reason recorded (last) for that Locator;
  the Locators listed are in sort order, each once, and they are exactly the Locators
  of the declarations that failed.
\<close>

theorem resolvePlugins_aggregates_failures:
  assumes lock: "MutexLock x (lockPath h pluginsDir) (Disk w) = None"
    and outs: "outs = resolveOutcomes h x pluginsDir assetsDir downloadsDir osArch pluginsParam w"
    and res: "resolvePlugins h x pluginsDir assetsDir downloadsDir osArch pluginsParam w
                = (result, w')"
  shows "attempted (Log w')
           = attempted (Log w)
             @ map (\<lambda>d. ParamLocator (LocatorWithResolverParam d)) (Plugins pluginsParam)
       \<and> map fst outs
           = map (\<lambda>d. ParamLocator (LocatorWithResolverParam d)) (Plugins pluginsParam)
       \<and> (failures outs = [] \<longrightarrow> result = Inr (recordAll [] (successes outs)))
       \<and> (failures outs \<noteq> [] \<longrightarrow>
            (\<exists>failed.
               result = Inl (Error (''failed to resolve '' @ fmtD (length failed) @ '' plugin(s):''
                          @ concat (map (\<lambda>l. ''\<newline>'' @ spaces (IndentSpaces h) @ reasonOf outs l)
                                     failed)))
               \<and> sorted (map locatorKey failed) \<and> distinct failed
               \<and> set failed = fst ` set (failures outs)
               \<and> (\<forall>l \<in> set failed. (l, reasonOf outs l) \<in> set (failures outs))))"
proof -
  let ?w0 = "w\<lparr>Log := Log w @ [EvLock (lockPath h pluginsDir)]\<rparr>"
  obtain outs' w1 where all: "attemptAll h x pluginsDir assetsDir downloadsDir osArch pluginsParam
      (Plugins pluginsParam) ?w0 = (outs', w1)"
    by (cases "attemptAll h x pluginsDir assetsDir downloadsDir osArch pluginsParam
      (Plugins pluginsParam) ?w0")
  have outs_eq: "outs = outs'"
    by (simp add: outs resolveOutcomes_def all)
  have run: "result = (if failures outs = [] then Inr (recordAll [] (successes outs))
                       else Inl (summarizeErrors h (recordAll [] (failures outs))))"
       "w' = w1\<lparr>Log := Log w1 @ [EvUnlock (lockPath h pluginsDir)]\<rparr>"
    using resolvePlugins_locked[OF lock all] res by (simp_all add: outs_eq)
  obtain evs where evs: "Log w1 = Log ?w0 @ evs"
      "attempted evs = map (\<lambda>d. ParamLocator (LocatorWithResolverParam d)) (Plugins pluginsParam)"
    using attemptAll_world[OF all] by blast
  have log: "attempted (Log w')
           = attempted (Log w)
             @ map (\<lambda>d. ParamLocator (LocatorWithResolverParam d)) (Plugins pluginsParam)"
    by (simp add: run(2) evs attempted_append)
  have keys: "map fst outs
           = map (\<lambda>d. ParamLocator (LocatorWithResolverParam d)) (Plugins pluginsParam)"
    using fst_attemptAll[OF all] by (simp add: outs_eq)
  let ?E = "recordAll [] (failures outs)"
  let ?failed = "SortLocators (map fst ?E)"
  have dE: "distinct (map fst ?E)"
    by (rule distinct_recordAll) simp
  have f1: "sorted (map locatorKey ?failed)"
    by (simp add: SortLocators_def)
  have f2: "distinct ?failed"
    using dE by (simp add: SortLocators_def)
  have f3: "set ?failed = fst ` set (failures outs)"
    by (simp add: SortLocators_def keys_recordAll)
  have f4: "(l, reasonOf outs l) \<in> set (failures outs)" if "l \<in> set ?failed" for l
  proof -
    have "l \<in> fst ` set (rev (failures outs))"
      using that f3 by simp
    then obtain r where r: "map_of (rev (failures outs)) l = Some r"
      by (metis map_of_eq_None_iff not_Some_eq)
    then have "(l, r) \<in> set (failures outs)"
      using map_of_SomeD by fastforce
    then show ?thesis
      by (simp add: reasonOf_def r)
  qed
  have f5: "length ?failed = length ?E"
    by (simp add: SortLocators_def)
  have bad: "failures outs \<noteq> [] \<longrightarrow>
            (\<exists>failed.
               result = Inl (Error (''failed to resolve '' @ fmtD (length failed) @ '' plugin(s):''
                          @ concat (map (\<lambda>l. ''\<newline>'' @ spaces (IndentSpaces h) @ reasonOf outs l)
                                     failed)))
               \<and> sorted (map locatorKey failed) \<and> distinct failed
               \<and> set failed = fst ` set (failures outs)
               \<and> (\<forall>l \<in> set failed. (l, reasonOf outs l) \<in> set (failures outs)))"
  proof
    assume ne: "failures outs \<noteq> []"
    have "result = Inl (Error (''failed to resolve '' @ fmtD (length ?failed) @ '' plugin(s):''
                          @ concat (map (\<lambda>l. ''\<newline>'' @ spaces (IndentSpaces h) @ reasonOf outs l)
                                     ?failed)))"
      using ne by (simp add: run(1) summarizeErrors_eq f5)
    then show "\<exists>failed.
               result = Inl (Error (''failed to resolve '' @ fmtD (length failed) @ '' plugin(s):''
                          @ concat (map (\<lambda>l. ''\<newline>'' @ spaces (IndentSpaces h) @ reasonOf outs l)
                                     failed)))
               \<and> sorted (map locatorKey failed) \<and> distinct failed
               \<and> set failed = fst ` set (failures outs)
               \<and> (\<forall>l \<in> set failed. (l, reasonOf outs l) \<in> set (failures outs))"
      using f1 f2 f3 f4 by blast
  qed
  have good: "failures outs = [] \<longrightarrow> result = Inr (recordAll [] (successes outs))"
    by (simp add: run(1))
  show ?thesis
    using log keys good bad by blast
qed

lemma ex_failures:
  "failures (resolveOutcomes exHelpers (exExternals [exD, exB] None) ''/plugins'' ''/assets''
      ''/downloads'' ''linux-amd64'' exParams (exWorld NotExist))
   = [(exD, ''no resolver supplies g3:p3:1.0''), (exB, ''no resolver supplies g1:p1:2.0'')]"
  by (simp add: resolveOutcomes_def attemptDeclaration_def call_defs failures_def lockPath_def
        ex_defs)

lemma ex_run:
  "resolvePlugins exHelpers (exExternals [exD, exB] None) ''/plugins'' ''/assets''
      ''/downloads'' ''linux-amd64'' exParams (exWorld NotExist)
   = (Inl (Error ''failed to resolve 2 plugin(s):\<newline>    no resolver supplies g1:p1:2.0\<newline>    no resolver supplies g3:p3:1.0''),
      \<lparr>Disk = 3, Files = (\<lambda>path. NotExist),
       Log = [EvLock ''/plugins/godel-resolver.lock'', EvResolveAndVerify exD,
              EvResolveAndVerify exB, EvResolveAndVerify exA,
              EvInfoFromPlugin ''/plugins/p1-1.0'', EvResolveAssets [],
              EvUnlock ''/plugins/godel-resolver.lock'']\<rparr>)"
  by (simp add: resolvePlugins_def resolveLoop_def resolveStep_def ResolveAndVerify_def
        call_defs summarizeErrors_def SortLocators_def locatorKey_def spaces_4
        fmtD_2 Let_def ex_defs)

text \<open>
  Three declarations, of which the first and the second fail: the third is attempted
  all the same, and the error lists the two failed Locators, the second before the
  first. And two declarations that both succeed: the call returns the set of the two.
\<close>

theorem resolvePlugins_aggregates_failures_witness:
  "MutexLock (exExternals [exD, exB] None) (lockPath exHelpers ''/plugins'')
     (Disk (exWorld NotExist)) = None
   \<and> attempted (Log (snd (resolvePlugins exHelpers (exExternals [exD, exB] None) ''/plugins''
        ''/assets'' ''/downloads'' ''linux-amd64'' exParams (exWorld NotExist))))
       = [exD, exB, exA]
   \<and> (\<exists>failed.
        fst (resolvePlugins exHelpers (exExternals [exD, exB] None) ''/plugins''
               ''/assets'' ''/downloads'' ''linux-amd64'' exParams (exWorld NotExist))
          = Inl (Error (''failed to resolve '' @ fmtD (length failed) @ '' plugin(s):''
                  @ concat (map (\<lambda>l. ''\<newline>'' @ spaces 4
                       @ reasonOf (resolveOutcomes exHelpers (exExternals [exD, exB] None)
                           ''/plugins'' ''/assets'' ''/downloads'' ''linux-amd64'' exParams
                           (exWorld NotExist)) l) failed)))
        \<and> sorted (map locatorKey failed) \<and> distinct failed \<and> set failed = {exD, exB})
   \<and> fst (resolvePlugins exHelpers (exExternals [exD, exB] None) ''/plugins''
               ''/assets'' ''/downloads'' ''linux-amd64'' exParams (exWorld NotExist))
       = Inl (Error ''failed to resolve 2 plugin(s):\<newline>    no resolver supplies g1:p1:2.0\<newline>    no resolver supplies g3:p3:1.0'')
   \<and> (\<exists>plugins.
        fst (resolvePlugins exHelpers (exExternals [] None) ''/plugins''
               ''/assets'' ''/downloads'' ''linux-amd64'' exParamsOk (exWorld NotExist))
          = Inr plugins
        \<and> map fst plugins = [exD, exA])"
proof -
  let ?R = "resolvePlugins exHelpers (exExternals [exD, exB] None) ''/plugins''
               ''/assets'' ''/downloads'' ''linux-amd64'' exParams (exWorld NotExist)"
  let ?O = "resolveOutcomes exHelpers (exExternals [exD, exB] None)
              ''/plugins'' ''/assets'' ''/downloads'' ''linux-amd64'' exParams (exWorld NotExist)"
  have lock: "MutexLock (exExternals [exD, exB] None) (lockPath exHelpers ''/plugins'')
     (Disk (exWorld NotExist)) = None"
    by (simp add: exExternals_def)
  have ih: "IndentSpaces exHelpers = 4"
    by (simp add: exHelpers_def)
  have decls: "map (\<lambda>d. ParamLocator (LocatorWithResolverParam d)) (Plugins exParams)
      = [exD, exB, exA]"
    by (simp add: exParams_def exDecl_def)
  have lg: "attempted (Log (exWorld NotExist)) = []"
    by (simp add: exWorld_def)
  have ne: "failures ?O \<noteq> []"
    by (simp add: ex_failures)
  note inst = resolvePlugins_aggregates_failures[OF lock refl surjective_pairing,
        of "''/assets''" "''/downloads''" "''linux-amd64''" exParams]
  have a: "attempted (Log (snd ?R)) = [exD, exB, exA]"
    using inst[THEN conjunct1] by (simp add: decls lg)
  obtain failed where f:
      "fst ?R = Inl (Error (''failed to resolve '' @ fmtD (length failed) @ '' plugin(s):''
                  @ concat (map (\<lambda>l. ''\<newline>'' @ spaces (IndentSpaces exHelpers)
                       @ reasonOf ?O l) failed)))"
      "sorted (map locatorKey failed)" "distinct failed"
      "set failed = fst ` set (failures ?O)"
    using inst[THEN conjunct2, THEN conjunct2, THEN conjunct2, THEN mp, OF ne] by blast
  have b: "\<exists>failed.
        fst ?R = Inl (Error (''failed to resolve '' @ fmtD (length failed) @ '' plugin(s):''
                  @ concat (map (\<lambda>l. ''\<newline>'' @ spaces 4 @ reasonOf ?O l) failed)))
        \<and> sorted (map locatorKey failed) \<and> distinct failed \<and> set failed = {exD, exB}"
    using f unfolding ih ex_failures by (intro exI[of _ failed]) simp
  have c: "fst ?R = Inl (Error ''failed to resolve 2 plugin(s):\<newline>    no resolver supplies g1:p1:2.0\<newline>    no resolver supplies g3:p3:1.0'')"
    by (simp add: ex_run)
  let ?O' = "resolveOutcomes exHelpers (exExternals [] None)
              ''/plugins'' ''/assets'' ''/downloads'' ''linux-amd64'' exParamsOk (exWorld NotExist)"
  have lock': "MutexLock (exExternals [] None) (lockPath exHelpers ''/plugins'')
     (Disk (exWorld NotExist)) = None"
    by (simp add: exExternals_def)
  have none: "failures ?O' = []"
    by (simp add: resolveOutcomes_def attemptDeclaration_def call_defs failures_def lockPath_def
          ex_defs exParamsOk_def)
  have keys: "map fst (recordAll [] (successes ?O')) = [exD, exA]"
    by (simp add: resolveOutcomes_def attemptDeclaration_def call_defs successes_def lockPath_def
          ex_defs exParamsOk_def)
  have d: "\<exists>plugins.
        fst (resolvePlugins exHelpers (exExternals [] None) ''/plugins''
               ''/assets'' ''/downloads'' ''linux-amd64'' exParamsOk (exWorld NotExist))
          = Inr plugins
        \<and> map fst plugins = [exD, exA]"
    using resolvePlugins_aggregates_failures[OF lock' refl surjective_pairing,
        where assetsDir="''/assets''" and downloadsDir="''/downloads''"
          and osArch="''linux-amd64''" and pluginsParam=exParamsOk,
        THEN conjunct2, THEN conjunct2, THEN conjunct1, THEN mp, OF none]
      keys
    by simp
  show ?thesis
    using lock a b c d by blast
qed

section \<open>The lock and the world\<close>

lemma resolvePlugins_lock_fails:
  assumes "MutexLock x (lockPath h pluginsDir) (Disk w) = Some err"
  shows "resolvePlugins h x pluginsDir assetsDir downloadsDir osArch pluginsParam w =
     (Inl (Error (Wrapf err ''failed to lock resolver mutex file'')), w)"
  using assms by (simp add: resolvePlugins_def lockPath_def)

lemma resolvePlugins_log:
  assumes lock: "MutexLock x (lockPath h pluginsDir) (Disk w) = None"
    and res: "resolvePlugins h x pluginsDir assetsDir downloadsDir osArch pluginsParam w
                = (result, w')"
  shows "\<exists>evs. Log w' = Log w @ [EvLock (lockPath h pluginsDir)] @ evs
                     @ [EvUnlock (lockPath h pluginsDir)]
           \<and> list_all resolutionEvent evs
           \<and> attempted evs
               = map (\<lambda>d. ParamLocator (LocatorWithResolverParam d)) (Plugins pluginsParam)
           \<and> Files w' = Files w"
proof -
  let ?w0 = "w\<lparr>Log := Log w @ [EvLock (lockPath h pluginsDir)]\<rparr>"
  obtain outs w1 where all: "attemptAll h x pluginsDir assetsDir downloadsDir osArch pluginsParam
      (Plugins pluginsParam) ?w0 = (outs, w1)"
    by (cases "attemptAll h x pluginsDir assetsDir downloadsDir osArch pluginsParam
      (Plugins pluginsParam) ?w0")
  have w': "w' = w1\<lparr>Log := Log w1 @ [EvUnlock (lockPath h pluginsDir)]\<rparr>"
    using resolvePlugins_locked[OF lock all] res by simp
  obtain evs where evs: "Log w1 = Log ?w0 @ evs" "list_all resolutionEvent evs"
      "attempted evs = map (\<lambda>d. ParamLocator (LocatorWithResolverParam d)) (Plugins pluginsParam)"
      "Files w1 = Files ?w0"
    using attemptAll_world[OF all] by blast
  show ?thesis
    using evs by (intro exI[of _ evs]) (simp add: w')
qed

lemma resolvePlugins_no_write:
  assumes "resolvePlugins h x pluginsDir assetsDir downloadsDir osArch pluginsParam w
             = (result, w')"
  shows "Files w' = Files w \<and> writes (Log w') = writes (Log w)"
proof (cases "MutexLock x (lockPath h pluginsDir) (Disk w)")
  case None
  obtain evs where "Log w' = Log w @ [EvLock (lockPath h pluginsDir)] @ evs
                     @ [EvUnlock (lockPath h pluginsDir)]"
      "list_all resolutionEvent evs" "Files w' = Files w"
    using resolvePlugins_log[OF None assms] by blast
  then show ?thesis
    by (simp add: writes_append writes_resolution)
next
  case (Some err)
  then show ?thesis
    using resolvePlugins_lock_fails[OF Some] assms by simp
qed

text \<open>
  Claim C10. The lock is the file \<^verbatim>\<open>godel-resolver.lock\<close> in the plugins directory.
  If it cannot be acquired, \<^verbatim>\<open>resolvePlugins\<close> returns the wrapped error and leaves
  the world as it was: no collaborator is called, nothing on disk changes. If it is
  acquired, the log of the call starts with the acquisition, ends with the release, and
  between the two holds the calls of the resolution only, among them one attempt per
  declaration: every attempt is made under the lock, and the lock is released whether
  the call returns a set or an error. (What the call of \<^verbatim>\<open>Lock\<close> itself does to the lock
  file, and a collaborator that panics, are outside the model.)
\<close>

theorem resolvePlugins_lock_discipline:
  assumes "resolvePlugins h x pluginsDir assetsDir downloadsDir osArch pluginsParam w
             = (result, w')"
  shows "lockPath h pluginsDir = Join h pluginsDir ''godel-resolver.lock''
       \<and> (\<forall>err. MutexLock x (lockPath h pluginsDir) (Disk w) = Some err \<longrightarrow>
             result = Inl (Error (Wrapf err ''failed to lock resolver mutex file'')) \<and> w' = w)
       \<and> (MutexLock x (lockPath h pluginsDir) (Disk w) = None \<longrightarrow>
             (\<exists>evs. Log w' = Log w @ [EvLock (lockPath h pluginsDir)] @ evs
                               @ [EvUnlock (lockPath h pluginsDir)]
                    \<and> list_all resolutionEvent evs
                    \<and> attempted evs
                        = map (\<lambda>d. ParamLocator (LocatorWithResolverParam d))
                            (Plugins pluginsParam)))"
proof (intro conjI allI impI)
  show "lockPath h pluginsDir = Join h pluginsDir ''godel-resolver.lock''"
    by (simp add: lockPath_def)
next
  fix err
  assume "MutexLock x (lockPath h pluginsDir) (Disk w) = Some err"
  from resolvePlugins_lock_fails[OF this] assms
  show "result = Inl (Error (Wrapf err ''failed to lock resolver mutex file''))" and "w' = w"
    by simp_all
next
  assume "MutexLock x (lockPath h pluginsDir) (Disk w) = None"
  from resolvePlugins_log[OF this assms]
  show "\<exists>evs. Log w' = Log w @ [EvLock (lockPath h pluginsDir)] @ evs
                               @ [EvUnlock (lockPath h pluginsDir)]
                    \<and> list_all resolutionEvent evs
                    \<and> attempted evs
                        = map (\<lambda>d. ParamLocator (LocatorWithResolverParam d))
                            (Plugins pluginsParam)"
    by blast
qed

text \<open>
  The lock cannot be acquired: nothing happens. And the run with two failures: its
  log starts with the acquisition and ends with the release.
\<close>

theorem resolvePlugins_lock_discipline_witness:
  "resolvePlugins exHelpers (exExternals [] (Some ''permission denied'')) ''/plugins''
      ''/assets'' ''/downloads'' ''linux-amd64'' exParams (exWorld NotExist)
     = (Inl (Error ''failed to lock resolver mutex file: permission denied''), exWorld NotExist)
   \<and> (\<exists>evs. Log (snd (resolvePlugins exHelpers (exExternals [exD, exB] None) ''/plugins''
                 ''/assets'' ''/downloads'' ''linux-amd64'' exParams (exWorld NotExist)))
          = [EvLock ''/plugins/godel-resolver.lock''] @ evs
            @ [EvUnlock ''/plugins/godel-resolver.lock'']
        \<and> list_all resolutionEvent evs \<and> attempted evs = [exD, exB, exA])"
proof -
  have lp: "lockPath exHelpers ''/plugins'' = ''/plugins/godel-resolver.lock''"
    by (simp add: lockPath_def exHelpers_def)
  have decls: "map (\<lambda>d. ParamLocator (LocatorWithResolverParam d)) (Plugins exParams)
      = [exD, exB, exA]"
    by (simp add: exParams_def exDecl_def)
  have l1: "MutexLock (exExternals [] (Some ''permission denied''))
      (lockPath exHelpers ''/plugins'') (Disk (exWorld NotExist)) = Some ''permission denied''"
    by (simp add: exExternals_def)
  have l2: "MutexLock (exExternals [exD, exB] None)
      (lockPath exHelpers ''/plugins'') (Disk (exWorld NotExist)) = None"
    by (simp add: exExternals_def)
  have lg: "Log (exWorld NotExist) = []"
    by (simp add: exWorld_def)
  have 1: "resolvePlugins exHelpers (exExternals [] (Some ''permission denied'')) ''/plugins''
      ''/assets'' ''/downloads'' ''linux-amd64'' exParams (exWorld NotExist)
     = (Inl (Error ''failed to lock resolver mutex file: permission denied''), exWorld NotExist)"
    using resolvePlugins_lock_discipline[OF surjective_pairing,
        where h=exHelpers and x="exExternals [] (Some ''permission denied'')"
          and pluginsDir="''/plugins''" and assetsDir="''/assets''"
          and downloadsDir="''/downloads''" and osArch="''linux-amd64''"
          and pluginsParam=exParams and w="exWorld NotExist",
        THEN conjunct2, THEN conjunct1, rule_format, OF l1]
    by (simp add: Wrapf_def prod_eq_iff)
  have 2: "\<exists>evs. Log (snd (resolvePlugins exHelpers (exExternals [exD, exB] None) ''/plugins''
                 ''/assets'' ''/downloads'' ''linux-amd64'' exParams (exWorld NotExist)))
          = [EvLock ''/plugins/godel-resolver.lock''] @ evs
            @ [EvUnlock ''/plugins/godel-resolver.lock'']
        \<and> list_all resolutionEvent evs \<and> attempted evs = [exD, exB, exA]"
    using resolvePlugins_lock_discipline[OF surjective_pairing,
        where h=exHelpers and x="exExternals [exD, exB] None"
          and pluginsDir="''/plugins''" and assetsDir="''/assets''"
          and downloadsDir="''/downloads''" and osArch="''linux-amd64''"
          and pluginsParam=exParams and w="exWorld NotExist",
        THEN conjunct2, THEN conjunct2, THEN mp, OF l2]
    unfolding lp decls lg by simp
  show ?thesis
    using 1 2 by blast
qed

section \<open>The cache\<close>

lemma loadPluginsTasks_dirs:
  assumes "ResourceDirs x = Inr (pluginsDir, assetsDir, downloadsDir)"
  shows "loadPluginsTasks h x pluginsParam cachePath w =
     (case loadCache h x cachePath w of
        Inl err \<Rightarrow> (Inl err, w)
      | Inr (Some plugins) \<Rightarrow> (aggregateTasks h pluginsDir assetsDir plugins, w)
      | Inr None \<Rightarrow>
          (case resolveVerifyAndCache h x pluginsDir assetsDir downloadsDir pluginsParam
                  cachePath w of
             (Inl err, w') \<Rightarrow> (Inl err, w')
           | (Inr plugins, w') \<Rightarrow> (aggregateTasks h pluginsDir assetsDir plugins, w')))"
  using assms
  by (simp add: loadPluginsTasks_def split: sum.splits option.splits prod.splits)

lemma resolveVerifyAndCache_cases:
  assumes res: "resolvePlugins h x pluginsDir assetsDir downloadsDir (osarchCurrent x)
                  pluginsParam w = (r, w1)"
    and run: "resolveVerifyAndCache h x pluginsDir assetsDir downloadsDir pluginsParam
                cachePath w = (r', w2)"
  shows "(\<exists>err. r' = Inl err) \<and> w2 = w1
       \<or> (\<exists>plugins. r = Inr plugins \<and> verifyPluginCompatibility h plugins = None
            \<and> (w2 = w1
                \<or> (\<exists>bytes. cachePath \<noteq> '''' \<and> marshalPluginsInfoJSON x plugins = Inr bytes
                     \<and> Log w2 = Log w1 @ [EvWriteFile cachePath bytes]
                     \<and> Disk w2 = Disk w1)))"
  using assms
  by (auto simp: resolveVerifyAndCache_def writeFileUsingRename_def
        split: sum.splits option.splits if_splits prod.splits)

lemma resolveVerifyAndCache_fails:
  assumes res: "resolvePlugins h x pluginsDir assetsDir downloadsDir (osarchCurrent x)
                  pluginsParam w = (r, w1)"
    and bad: "(\<exists>err. r = Inl err)
        \<or> (\<exists>plugins err. r = Inr plugins \<and> verifyPluginCompatibility h plugins = Some err)"
  shows "\<exists>err. resolveVerifyAndCache h x pluginsDir assetsDir downloadsDir pluginsParam
                  cachePath w = (Inl err, w1)"
  using assms by (auto simp: resolveVerifyAndCache_def)

text \<open>
  Claim C5. When a cache path is given, the file at that path can be read and its
  content decodes to a set, \<^verbatim>\<open>loadPluginsTasks\<close> returns what the aggregator makes of that
  set and leaves the world as it was: no lock is taken, no collaborator of the
  resolution is called, and nothing is written. The result does not depend on what
  \<^verbatim>\<open>verifyPluginCompatibility\<close> would say of the set. (The directories are those that
  \<^verbatim>\<open>ResourceDirs\<close> returns; when that call fails the cache is not read.)
\<close>

theorem cache_hit_used_directly:
  assumes "ResourceDirs x = Inr (pluginsDir, assetsDir, downloadsDir)"
    and "cachePath \<noteq> ''''"
    and "Files w cachePath = Content bytes"
    and "unmarshalPluginsInfoJSON x bytes = Inr cached"
  shows "loadPluginsTasks h x pluginsParam cachePath w
           = (aggregateTasks h pluginsDir assetsDir cached, w)"
  using assms(2-4) by (simp add: loadPluginsTasks_dirs[OF assms(1)] loadCache_def)

text \<open>
  Claim C6. With a cache path given: when the file does not exist, the read path
  reports no error and leaves \<^verbatim>\<open>plugins\<close> nil, the call goes on with the fresh
  resolution (when the lock is free, the first thing it does is to take it) and returns
  what that gives. When reading the file fails otherwise, or its content does not
  decode, the call returns that error, wrapped, and the world is as it was: nothing was
  resolved.
\<close>

theorem cache_read_path:
  assumes dirs: "ResourceDirs x = Inr (pluginsDir, assetsDir, downloadsDir)"
    and path: "cachePath \<noteq> ''''"
    and run: "loadPluginsTasks h x pluginsParam cachePath w = (result, w')"
  shows "(Files w cachePath = NotExist \<longrightarrow>
            loadCache h x cachePath w = Inr None
            \<and> (result, w')
                = (case resolveVerifyAndCache h x pluginsDir assetsDir downloadsDir pluginsParam
                          cachePath w of
                     (Inl err, w1) \<Rightarrow> (Inl err, w1)
                   | (Inr plugins, w1) \<Rightarrow> (aggregateTasks h pluginsDir assetsDir plugins, w1))
            \<and> (MutexLock x (lockPath h pluginsDir) (Disk w) = None \<longrightarrow>
                 (\<exists>evs. Log w' = Log w @ EvLock (lockPath h pluginsDir) # evs)))
       \<and> (\<forall>err. Files w cachePath = ReadError err \<longrightarrow>
             result = Inl (Error (Wrapf err
                        (''failed to read plugin information from cache file at ''
                         @ Quote h cachePath)))
             \<and> w' = w)
       \<and> (\<forall>bytes err. Files w cachePath = Content bytes
                        \<and> unmarshalPluginsInfoJSON x bytes = Inl err \<longrightarrow>
             result = Inl (Error (Wrapf err ''failed to unmarshal plugin information''))
             \<and> w' = w)"
proof (intro conjI allI impI)
  assume ne: "Files w cachePath = NotExist"
  show miss: "loadCache h x cachePath w = Inr None"
    using path ne by (simp add: loadCache_def)
  show eq: "(result, w')
        = (case resolveVerifyAndCache h x pluginsDir assetsDir downloadsDir pluginsParam
                  cachePath w of
             (Inl err, w1) \<Rightarrow> (Inl err, w1)
           | (Inr plugins, w1) \<Rightarrow> (aggregateTasks h pluginsDir assetsDir plugins, w1))"
    using run by (simp add: loadPluginsTasks_dirs[OF dirs] miss)
  assume lock: "MutexLock x (lockPath h pluginsDir) (Disk w) = None"
  obtain r w1 where res: "resolvePlugins h x pluginsDir assetsDir downloadsDir (osarchCurrent x)
        pluginsParam w = (r, w1)"
    by (cases "resolvePlugins h x pluginsDir assetsDir downloadsDir (osarchCurrent x)
        pluginsParam w")
  obtain r' w2 where rvc: "resolveVerifyAndCache h x pluginsDir assetsDir downloadsDir
        pluginsParam cachePath w = (r', w2)"
    by (cases "resolveVerifyAndCache h x pluginsDir assetsDir downloadsDir
        pluginsParam cachePath w")
  have w2: "w' = w2"
    using eq by (simp add: rvc split: sum.splits)
  obtain evs where evs: "Log w1 = Log w @ [EvLock (lockPath h pluginsDir)] @ evs
                     @ [EvUnlock (lockPath h pluginsDir)]"
    using resolvePlugins_log[OF lock res] by blast
  have "\<exists>more. Log w2 = Log w1 @ more"
    using resolveVerifyAndCache_cases[OF res rvc] by auto
  then show "\<exists>evs. Log w' = Log w @ EvLock (lockPath h pluginsDir) # evs"
    using evs by (auto simp: w2)
next
  fix err
  assume "Files w cachePath = ReadError err"
  then have "loadCache h x cachePath w
      = Inl (Error (Wrapf err (''failed to read plugin information from cache file at ''
                         @ Quote h cachePath)))"
    using path by (simp add: loadCache_def)
  then show "result = Inl (Error (Wrapf err
                        (''failed to read plugin information from cache file at ''
                         @ Quote h cachePath)))" and "w' = w"
    using run by (simp_all add: loadPluginsTasks_dirs[OF dirs])
next
  fix bytes err
  assume "Files w cachePath = Content bytes \<and> unmarshalPluginsInfoJSON x bytes = Inl err"
  then have "loadCache h x cachePath w
      = Inl (Error (Wrapf err ''failed to unmarshal plugin information''))"
    using path by (simp add: loadCache_def)
  then show "result = Inl (Error (Wrapf err ''failed to unmarshal plugin information''))"
      and "w' = w"
    using run by (simp_all add: loadPluginsTasks_dirs[OF dirs])
qed

lemma aggregateTasks_returns:
  "\<exists>tasks ups. aggregateTasks h pluginsDir assetsDir plugins = Inr (tasks, ups)"
proof -
  have "set (SortLocators (map fst plugins)) \<subseteq> fst ` set plugins"
    by (simp add: SortLocators_def)
  from tasksLoop_eq[OF this, of h pluginsDir assetsDir "[]" "[]"]
  show ?thesis
    by (simp add: aggregateTasks_def)
qed

lemma resolveVerifyAndCache_error_files:
  assumes res: "resolvePlugins h x pluginsDir assetsDir downloadsDir (osarchCurrent x)
                  pluginsParam w = (r, w1)"
    and run: "resolveVerifyAndCache h x pluginsDir assetsDir downloadsDir pluginsParam
                cachePath w = (Inl err, w2)"
  shows "Files w2 = Files w1"
  using assms
  by (auto simp: resolveVerifyAndCache_def writeFileUsingRename_def
        split: sum.splits option.splits if_splits prod.splits)

text \<open>
  Claim C7. Take a call of \<^verbatim>\<open>loadPluginsTasks\<close> and the call of \<^verbatim>\<open>resolvePlugins\<close>
  it makes or would make. If the resolution returns an error, or returns a set that
  the verifier rejects, then no file is written and no write is attempted: the files
  are as they were before the call, and the log shows no new write. When the cache was
  not loaded, the call then returns an error and the world is the one the resolution
  left. The other way round, a call that writes or attempts to write is one whose
  resolution returned a set that the verifier accepted. And whenever the call returns
  an error, whichever it is, the files are as they were before the call.
\<close>

theorem cache_written_only_after_success:
  assumes dirs: "ResourceDirs x = Inr (pluginsDir, assetsDir, downloadsDir)"
    and res: "resolvePlugins h x pluginsDir assetsDir downloadsDir (osarchCurrent x)
                pluginsParam w = (r, w1)"
    and run: "loadPluginsTasks h x pluginsParam cachePath w = (result, w')"
  shows "((\<exists>err. r = Inl err)
          \<or> (\<exists>plugins err. r = Inr plugins \<and> verifyPluginCompatibility h plugins = Some err)
          \<longrightarrow> Files w' = Files w \<and> writes (Log w') = writes (Log w)
              \<and> (loadCache h x cachePath w = Inr None \<longrightarrow> (\<exists>err. result = Inl err) \<and> w' = w1))
       \<and> (writes (Log w') \<noteq> writes (Log w) \<or> Files w' \<noteq> Files w
          \<longrightarrow> (\<exists>plugins. r = Inr plugins \<and> verifyPluginCompatibility h plugins = None))
       \<and> ((\<exists>err. result = Inl err) \<longrightarrow> Files w' = Files w)"
proof -
  have frame: "Files w1 = Files w" "writes (Log w1) = writes (Log w)"
    using resolvePlugins_no_write[OF res] by simp_all
  have bad: "Files w' = Files w \<and> writes (Log w') = writes (Log w)
              \<and> (loadCache h x cachePath w = Inr None \<longrightarrow> (\<exists>err. result = Inl err) \<and> w' = w1)"
    if b: "(\<exists>err. r = Inl err)
          \<or> (\<exists>plugins err. r = Inr plugins \<and> verifyPluginCompatibility h plugins = Some err)"
  proof -
    obtain err where rvc: "resolveVerifyAndCache h x pluginsDir assetsDir downloadsDir
        pluginsParam cachePath w = (Inl err, w1)"
      using resolveVerifyAndCache_fails[OF res b] by blast
    show ?thesis
      using run frame
      by (auto simp: loadPluginsTasks_dirs[OF dirs] rvc split: sum.splits option.splits)
  qed
  have good: "\<exists>plugins. r = Inr plugins \<and> verifyPluginCompatibility h plugins = None"
    if c: "writes (Log w') \<noteq> writes (Log w) \<or> Files w' \<noteq> Files w"
  proof (rule ccontr)
    assume n: "\<not> (\<exists>plugins. r = Inr plugins \<and> verifyPluginCompatibility h plugins = None)"
    have "(\<exists>err. r = Inl err)
          \<or> (\<exists>plugins err. r = Inr plugins \<and> verifyPluginCompatibility h plugins = Some err)"
      using n by (cases r) auto
    from bad[OF this] c show False by simp
  qed
  have err: "Files w' = Files w" if e: "\<exists>err. result = Inl err"
  proof -
    obtain r' w2 where rvc: "resolveVerifyAndCache h x pluginsDir assetsDir downloadsDir
        pluginsParam cachePath w = (r', w2)"
      by (cases "resolveVerifyAndCache h x pluginsDir assetsDir downloadsDir
        pluginsParam cachePath w")
    have agg: "aggregateTasks h pluginsDir assetsDir plugins \<noteq> Inl e'" for plugins e'
      using aggregateTasks_returns[of h pluginsDir assetsDir plugins] by auto
    have fresh: "r' = Inl e' \<Longrightarrow> Files w2 = Files w" for e'
      using resolveVerifyAndCache_error_files[OF res] rvc frame(1) by simp
    show ?thesis
      using run e agg fresh
      by (auto simp: loadPluginsTasks_dirs[OF dirs] rvc split: sum.splits option.splits)
  qed
  show ?thesis
    using bad good err by blast
qed

lemmas run_defs = loadPluginsTasks_def loadCache_def resolveVerifyAndCache_def
  resolvePlugins_def resolveLoop_def resolveStep_def ResolveAndVerify_def call_defs
  verifyPluginCompatibility_def conflictReport_def verifySinglePluginCompatibility_def
  commonTasks_def taskNames_def sortStrings_def writeFileUsingRename_def
  aggregateTasks_def SortLocators_def locatorKey_def Let_def

lemma ex_dirs: "ResourceDirs (exExternals failing lockErr) = Inr (''/plugins'', ''/assets'', ''/downloads'')"
  by (simp add: exExternals_def)

lemma ex_osarch: "osarchCurrent (exExternals failing lockErr) = ''linux-amd64''"
  by (simp add: exExternals_def)

lemma ex_file: "Files (exWorld f) ''/cache.json'' = f"
  by (simp add: exWorld_def)

lemma ex_cached_rejected:
  "\<exists>msg. verifyPluginCompatibility exHelpers exCached = Some (Error msg)"
proof -
  have d: "distinct (map fst exCached)"
    by (simp add: exCached_def exA_def exB_def)
  have a: "map_of exCached exA = Some (exPlugin [''build''] False)"
    by (simp add: exCached_def exA_def exB_def)
  have "reportedReasons exCached exA exB = [errDifferentVersion]"
    unfolding reportedReasons_eq[OF d a]
    by (simp add: exCached_def exA_def exB_def pairReason_def duplicateProduct_def)
  then show ?thesis
    using reported_imp_fails[OF d, of exA exB exHelpers] by simp
qed

text \<open>
  The cache holds two versions of one plugin, which the verifier rejects: the call
  returns the tasks of both and the world is as it was.
\<close>

theorem cache_hit_used_directly_witness:
  "loadPluginsTasks exHelpers (exExternals [] None) exParams ''/cache.json''
     (exWorld (Content ''cached''))
   = (Inr ([\<lparr>Name = ''build'', \<dots> = (''/plugins/p1-1.0'', [])\<rparr>,
            \<lparr>Name = ''test'', \<dots> = (''/plugins/p1-2.0'', [])\<rparr>], []),
      exWorld (Content ''cached''))
   \<and> (\<exists>msg. verifyPluginCompatibility exHelpers exCached = Some (Error msg))"
proof -
  have dec: "unmarshalPluginsInfoJSON (exExternals [] None) ''cached'' = Inr exCached"
    by (simp add: exExternals_def)
  have agg: "aggregateTasks exHelpers ''/plugins'' ''/assets'' exCached
      = Inr ([\<lparr>Name = ''build'', \<dots> = (''/plugins/p1-1.0'', [])\<rparr>,
              \<lparr>Name = ''test'', \<dots> = (''/plugins/p1-2.0'', [])\<rparr>], [])"
    by (simp add: aggregateTasks_def SortLocators_def locatorKey_def Let_def ex_defs)
  have "loadPluginsTasks exHelpers (exExternals [] None) exParams ''/cache.json''
     (exWorld (Content ''cached''))
     = (aggregateTasks exHelpers ''/plugins'' ''/assets'' exCached, exWorld (Content ''cached''))"
    using cache_hit_used_directly[OF ex_dirs _ ex_file dec,
        where h=exHelpers and pluginsParam=exParams]
    by simp
  then show ?thesis
    using agg ex_cached_rejected by simp
qed

text \<open>
  The cache file is absent: the lock is taken. The file cannot be read, or holds
  bytes that do not decode: the call fails and nothing else happens.
\<close>

theorem cache_read_path_witness:
  "loadCache exHelpers (exExternals [] None) ''/cache.json'' (exWorld NotExist) = Inr None
   \<and> (\<exists>evs. Log (snd (loadPluginsTasks exHelpers (exExternals [] None) exParams ''/cache.json''
                       (exWorld NotExist)))
             = EvLock ''/plugins/godel-resolver.lock'' # evs)
   \<and> loadPluginsTasks exHelpers (exExternals [] None) exParams ''/cache.json''
        (exWorld (ReadError ''permission denied''))
       = (Inl (Error (''failed to read plugin information from cache file at ''
                      @ [CHR 0x22] @ ''/cache.json'' @ [CHR 0x22] @ '': permission denied'')),
          exWorld (ReadError ''permission denied''))
   \<and> loadPluginsTasks exHelpers (exExternals [] None) exParams ''/cache.json''
        (exWorld (Content ''garbage''))
       = (Inl (Error ''failed to unmarshal plugin information: unexpected end of JSON input''),
          exWorld (Content ''garbage''))"
proof -
  have path: "''/cache.json'' \<noteq> []" by simp
  have lock: "MutexLock (exExternals [] None) (lockPath exHelpers ''/plugins'')
      (Disk (exWorld NotExist)) = None"
    by (simp add: exExternals_def)
  have lp: "lockPath exHelpers ''/plugins'' = ''/plugins/godel-resolver.lock''"
    by (simp add: lockPath_def exHelpers_def)
  have lg: "Log (exWorld NotExist) = []"
    by (simp add: exWorld_def)
  note miss = cache_read_path[OF ex_dirs[of "[]" None] path surjective_pairing,
      where h=exHelpers and pluginsParam=exParams and w="exWorld NotExist",
      THEN conjunct1, THEN mp, OF ex_file]
  have 1: "loadCache exHelpers (exExternals [] None) ''/cache.json'' (exWorld NotExist) = Inr None"
    using miss by simp
  have 2: "\<exists>evs. Log (snd (loadPluginsTasks exHelpers (exExternals [] None) exParams
                       ''/cache.json'' (exWorld NotExist)))
             = EvLock ''/plugins/godel-resolver.lock'' # evs"
    using miss[THEN conjunct2, THEN conjunct2, THEN mp, OF lock] by (simp add: lp lg)
  have 3: "loadPluginsTasks exHelpers (exExternals [] None) exParams ''/cache.json''
        (exWorld (ReadError ''permission denied''))
       = (Inl (Error (''failed to read plugin information from cache file at ''
                      @ [CHR 0x22] @ ''/cache.json'' @ [CHR 0x22] @ '': permission denied'')),
          exWorld (ReadError ''permission denied''))"
    using cache_read_path[OF ex_dirs[of "[]" None] path surjective_pairing,
      where h=exHelpers and pluginsParam=exParams and w="exWorld (ReadError ''permission denied'')",
      THEN conjunct2, THEN conjunct1, rule_format, OF ex_file]
    by (simp add: Wrapf_def exHelpers_def prod_eq_iff)
  have dec: "Files (exWorld (Content ''garbage'')) ''/cache.json'' = Content ''garbage''
      \<and> unmarshalPluginsInfoJSON (exExternals [] None) ''garbage''
          = Inl ''unexpected end of JSON input''"
    by (simp add: exExternals_def exWorld_def)
  have 4: "loadPluginsTasks exHelpers (exExternals [] None) exParams ''/cache.json''
        (exWorld (Content ''garbage''))
       = (Inl (Error ''failed to unmarshal plugin information: unexpected end of JSON input''),
          exWorld (Content ''garbage''))"
    using cache_read_path[OF ex_dirs[of "[]" None] path surjective_pairing,
      where h=exHelpers and pluginsParam=exParams and w="exWorld (Content ''garbage'')",
      THEN conjunct2, THEN conjunct2, rule_format, OF dec]
    by (simp add: Wrapf_def prod_eq_iff)
  show ?thesis
    using 1 2 3 4 by blast
qed

lemma ex_failed_run:
  "resolvePlugins exHelpers (exExternals [exB] None) ''/plugins'' ''/assets''
      ''/downloads'' ''linux-amd64'' exParams (exWorld NotExist)
   = (Inl (Error ''failed to resolve 1 plugin(s):\<newline>    no resolver supplies g1:p1:2.0''),
      \<lparr>Disk = 3, Files = (\<lambda>path. NotExist),
       Log = [EvLock ''/plugins/godel-resolver.lock'',
              EvResolveAndVerify exD, EvInfoFromPlugin ''/plugins/p3-1.0'', EvResolveAssets [],
              EvResolveAndVerify exB,
              EvResolveAndVerify exA, EvInfoFromPlugin ''/plugins/p1-1.0'', EvResolveAssets [],
              EvUnlock ''/plugins/godel-resolver.lock'']\<rparr>)"
  by (simp add: resolvePlugins_def resolveLoop_def resolveStep_def ResolveAndVerify_def
        call_defs summarizeErrors_def SortLocators_def locatorKey_def spaces_4
        fmtD.simps[of "Suc 0"] digitChar_def Let_def ex_defs)

lemma ex_ok_run:
  "loadPluginsTasks exHelpers (exExternals [] None) exParamsOk ''/cache.json'' (exWorld NotExist)
   = (Inr ([\<lparr>Name = ''/plugins/p1-1.0'', \<dots> = (''/plugins/p1-1.0'', [])\<rparr>,
            \<lparr>Name = ''/plugins/p3-1.0'', \<dots> = (''/plugins/p3-1.0'', [])\<rparr>], []),
      \<lparr>Disk = 2,
       Files = (\<lambda>path. if path = ''/cache.json'' then Content ''cached'' else NotExist),
       Log = [EvLock ''/plugins/godel-resolver.lock'',
              EvResolveAndVerify exD, EvInfoFromPlugin ''/plugins/p3-1.0'', EvResolveAssets [],
              EvResolveAndVerify exA, EvInfoFromPlugin ''/plugins/p1-1.0'', EvResolveAssets [],
              EvUnlock ''/plugins/godel-resolver.lock'',
              EvWriteFile ''/cache.json'' ''cached'']\<rparr>)"
  by (simp add: run_defs ex_defs exParamsOk_def fun_eq_iff)

text \<open>
  The scenario of the spec: three declarations of which the second fails, with a cache
  path whose file is absent. The call fails, the file is still absent and no write was
  attempted. And a call whose two declarations resolve to compatible plugins: it writes
  the cache, and its resolution and verification succeeded.
\<close>

theorem cache_written_only_after_success_witness:
  "(\<exists>err. fst (loadPluginsTasks exHelpers (exExternals [exB] None) exParams ''/cache.json''
               (exWorld NotExist)) = Inl err)
   \<and> Files (snd (loadPluginsTasks exHelpers (exExternals [exB] None) exParams ''/cache.json''
               (exWorld NotExist))) = Files (exWorld NotExist)
   \<and> writes (Log (snd (loadPluginsTasks exHelpers (exExternals [exB] None) exParams
               ''/cache.json'' (exWorld NotExist)))) = []
   \<and> writes (Log (snd (loadPluginsTasks exHelpers (exExternals [] None) exParamsOk
               ''/cache.json'' (exWorld NotExist)))) = [(''/cache.json'', ''cached'')]
   \<and> (\<exists>plugins. fst (resolvePlugins exHelpers (exExternals [] None) ''/plugins'' ''/assets''
                       ''/downloads'' ''linux-amd64'' exParamsOk (exWorld NotExist)) = Inr plugins
          \<and> verifyPluginCompatibility exHelpers plugins = None)"
proof -
  have miss: "loadCache exHelpers (exExternals [exB] None) ''/cache.json'' (exWorld NotExist)
      = Inr None"
    by (simp add: loadCache_def exWorld_def)
  have failed: "(\<exists>err. fst (resolvePlugins exHelpers (exExternals [exB] None) ''/plugins''
        ''/assets'' ''/downloads'' (osarchCurrent (exExternals [exB] None)) exParams
        (exWorld NotExist)) = Inl err)
     \<or> (\<exists>plugins err. fst (resolvePlugins exHelpers (exExternals [exB] None) ''/plugins''
        ''/assets'' ''/downloads'' (osarchCurrent (exExternals [exB] None)) exParams
        (exWorld NotExist)) = Inr plugins
          \<and> verifyPluginCompatibility exHelpers plugins = Some err)"
    by (simp add: ex_osarch ex_failed_run)
  have lg: "writes (Log (exWorld NotExist)) = []"
    by (simp add: exWorld_def)
  note bad = cache_written_only_after_success[OF ex_dirs[of "[exB]" None]
        surjective_pairing surjective_pairing,
      where h=exHelpers and pluginsParam=exParams and cachePath="''/cache.json''"
        and w="exWorld NotExist",
      THEN conjunct1, THEN mp, OF failed]
  have 1: "\<exists>err. fst (loadPluginsTasks exHelpers (exExternals [exB] None) exParams ''/cache.json''
               (exWorld NotExist)) = Inl err"
    using bad miss by blast
  have 2: "Files (snd (loadPluginsTasks exHelpers (exExternals [exB] None) exParams ''/cache.json''
               (exWorld NotExist))) = Files (exWorld NotExist)"
    using cache_written_only_after_success[OF ex_dirs[of "[exB]" None]
        surjective_pairing surjective_pairing,
      where h=exHelpers and pluginsParam=exParams and cachePath="''/cache.json''"
        and w="exWorld NotExist",
      THEN conjunct2, THEN conjunct2, THEN mp, OF 1]
    by simp
  have 3: "writes (Log (snd (loadPluginsTasks exHelpers (exExternals [exB] None) exParams
               ''/cache.json'' (exWorld NotExist)))) = []"
    using bad lg by simp
  have 4: "writes (Log (snd (loadPluginsTasks exHelpers (exExternals [] None) exParamsOk
               ''/cache.json'' (exWorld NotExist)))) = [(''/cache.json'', ''cached'')]"
    by (simp add: ex_ok_run)
  have wrote: "writes (Log (snd (loadPluginsTasks exHelpers (exExternals [] None) exParamsOk
               ''/cache.json'' (exWorld NotExist)))) \<noteq> writes (Log (exWorld NotExist))
     \<or> Files (snd (loadPluginsTasks exHelpers (exExternals [] None) exParamsOk
               ''/cache.json'' (exWorld NotExist))) \<noteq> Files (exWorld NotExist)"
    by (simp add: 4 lg)
  have 5: "\<exists>plugins. fst (resolvePlugins exHelpers (exExternals [] None) ''/plugins'' ''/assets''
                       ''/downloads'' ''linux-amd64'' exParamsOk (exWorld NotExist)) = Inr plugins
          \<and> verifyPluginCompatibility exHelpers plugins = None"
    using cache_written_only_after_success[OF ex_dirs[of "[]" None]
        surjective_pairing surjective_pairing,
      where h=exHelpers and pluginsParam=exParamsOk and cachePath="''/cache.json''"
        and w="exWorld NotExist",
      THEN conjunct2, THEN conjunct1, THEN mp, OF wrote]
    by (simp add: ex_osarch)
  show ?thesis
    using 1 2 3 4 5 by blast
qed

end
